theory Spec2Isabelle
  imports Complex_Main "HOL-Library.AList"
begin

section \<open>Python values\<close>

text \<open>
  The exporter (src/server/main.py) handles the objects that \<open>response.json()\<close> returns:
  \<open>None\<close>, booleans, unbounded integers, floats, strings, lists and dicts with string keys.
  A dict is kept as the list of its items in iteration order; the keys of a Python dict
  are distinct (\<open>wf_pyval\<close> below says so for a whole value).

  Floating-point numbers are not interpreted: the type \<open>'f\<close> of floats and the primitives
  of the Python runtime that produce or inspect a float are parameters (\<open>py_runtime\<close>).
\<close>

datatype 'f pyval =
    PNone
  | PBool bool
  | PInt int
  | PFloat 'f
  | PStr string
  | PList "'f pyval list"
  | PDict "(string \<times> 'f pyval) list"

text \<open>
  The source has no \<open>raise\<close> statement and defines no exception class: every exception
  comes from the Python runtime or from the \<open>requests\<close> library.
  \<open>RequestException\<close> stands for the transport failures of \<open>requests.get\<close>
  (connection error, timeout); \<open>JSONDecodeError\<close> for a body that \<open>.json()\<close> cannot decode.
\<close>

datatype py_error =
    KeyError
  | IndexError
  | TypeError
  | AttributeError
  | ValueError
  | OverflowError
  | RequestException
  | JSONDecodeError

record 'f py_runtime =
  float_is_zero :: "'f \<Rightarrow> bool"
  float_of_int :: "int \<Rightarrow> 'f option"
  float_of_str :: "string \<Rightarrow> 'f option"
  float_zero :: 'f
  str_of :: "'f pyval \<Rightarrow> string"

text \<open>
  \<open>float_is_zero f\<close> is \<open>f == 0\<close>; \<open>float_of_int i\<close> is \<open>float(i)\<close>, \<open>None\<close> when the integer
  is too large (OverflowError); \<open>float_of_str s\<close> is \<open>float(s)\<close>, \<open>None\<close> when the string is
  no numeral (ValueError); \<open>float_zero\<close> is \<open>0.0\<close>; \<open>str_of v\<close> is \<open>str(v)\<close> for the values
  whose text is not fixed below.
\<close>

fun wf_pyval :: "'f pyval \<Rightarrow> bool" where
  "wf_pyval (PList xs) = list_all wf_pyval xs"
| "wf_pyval (PDict kvs) = (distinct (map fst kvs) \<and> list_all (\<lambda>kv. wf_pyval (snd kv)) kvs)"
| "wf_pyval _ = True"

subsection \<open>Truth value, \<open>or\<close>, comparisons, conversions\<close>

fun py_bool :: "'f py_runtime \<Rightarrow> 'f pyval \<Rightarrow> bool" where
  "py_bool rt PNone = False"
| "py_bool rt (PBool b) = b"
| "py_bool rt (PInt i) = (i \<noteq> 0)"
| "py_bool rt (PFloat f) = (\<not> float_is_zero rt f)"
| "py_bool rt (PStr s) = (s \<noteq> [])"
| "py_bool rt (PList xs) = (xs \<noteq> [])"
| "py_bool rt (PDict kvs) = (kvs \<noteq> [])"

definition py_or :: "'f py_runtime \<Rightarrow> 'f pyval \<Rightarrow> 'f pyval \<Rightarrow> 'f pyval" where
  "py_or rt a b = (if py_bool rt a then a else b)"

text \<open>\<open>v != 0\<close>: booleans and floats compare with the integer by value, anything else differs.\<close>

fun py_ne_zero :: "'f py_runtime \<Rightarrow> 'f pyval \<Rightarrow> bool" where
  "py_ne_zero rt (PInt i) = (i \<noteq> 0)"
| "py_ne_zero rt (PBool b) = b"
| "py_ne_zero rt (PFloat f) = (\<not> float_is_zero rt f)"
| "py_ne_zero rt _ = True"

text \<open>\<open>v == "literal"\<close>: only the string itself is equal to a string.\<close>

definition py_eq_str :: "'f pyval \<Rightarrow> string \<Rightarrow> bool" where
  "py_eq_str v s = (v = PStr s)"

fun py_float :: "'f py_runtime \<Rightarrow> 'f pyval \<Rightarrow> py_error + 'f" where
  "py_float rt (PFloat f) = Inr f"
| "py_float rt (PInt i) =
     (case float_of_int rt i of None \<Rightarrow> Inl OverflowError | Some f \<Rightarrow> Inr f)"
| "py_float rt (PBool b) =
     (case float_of_int rt (if b then 1 else 0) of None \<Rightarrow> Inl OverflowError | Some f \<Rightarrow> Inr f)"
| "py_float rt (PStr s) =
     (case float_of_str rt s of None \<Rightarrow> Inl ValueError | Some f \<Rightarrow> Inr f)"
| "py_float rt _ = Inl TypeError"

text \<open>\<open>int(b)\<close> of a boolean.\<close>

definition py_int_of_bool :: "bool \<Rightarrow> 'f pyval" where
  "py_int_of_bool b = PInt (if b then 1 else 0)"

fun py_str :: "'f py_runtime \<Rightarrow> 'f pyval \<Rightarrow> string" where
  "py_str rt (PStr s) = s"
| "py_str rt (PBool b) = (if b then ''True'' else ''False'')"
| "py_str rt PNone = ''None''"
| "py_str rt v = str_of rt v"

subsection \<open>Subscripts, membership, iteration\<close>

text \<open>\<open>v["key"]\<close>: a dict looks the key up (KeyError); nothing else takes a string subscript.\<close>

fun getitem :: "'f pyval \<Rightarrow> string \<Rightarrow> py_error + 'f pyval" where
  "getitem (PDict kvs) k = (case map_of kvs k of None \<Rightarrow> Inl KeyError | Some v \<Rightarrow> Inr v)"
| "getitem _ k = Inl TypeError"

text \<open>
  \<open>v[i]\<close> for a literal index \<open>i \<ge> 0\<close>: a list or a string is indexed (IndexError out of
  range), a dict has only string keys (KeyError), nothing else is subscriptable.
\<close>

fun getitem_index :: "'f pyval \<Rightarrow> nat \<Rightarrow> py_error + 'f pyval" where
  "getitem_index (PList xs) i = (if i < length xs then Inr (xs ! i) else Inl IndexError)"
| "getitem_index (PStr s) i = (if i < length s then Inr (PStr [s ! i]) else Inl IndexError)"
| "getitem_index (PDict kvs) i = Inl KeyError"
| "getitem_index _ i = Inl TypeError"

fun bind_value :: "py_error + 'a \<Rightarrow> ('a \<Rightarrow> py_error + 'b) \<Rightarrow> py_error + 'b" where
  "bind_value (Inl e) f = Inl e"
| "bind_value (Inr v) f = f v"

text \<open>\<open>v[k1][k2]...\<close>, left to right.\<close>

fun getpath :: "'f pyval \<Rightarrow> string list \<Rightarrow> py_error + 'f pyval" where
  "getpath v [] = Inr v"
| "getpath v (k # ks) = bind_value (getitem v k) (\<lambda>w. getpath w ks)"

fun str_contains :: "string \<Rightarrow> string \<Rightarrow> bool" where
  "str_contains [] sub = (sub = [])"
| "str_contains (c # t) sub = (take (length sub) (c # t) = sub \<or> str_contains t sub)"

text \<open>\<open>"literal" in v\<close>: a key of a dict, an element of a list, a substring of a string.\<close>

fun py_contains :: "'f pyval \<Rightarrow> string \<Rightarrow> py_error + bool" where
  "py_contains (PDict kvs) s = Inr (s \<in> set (map fst kvs))"
| "py_contains (PList xs) s = Inr (PStr s \<in> set xs)"
| "py_contains (PStr t) s = Inr (str_contains t s)"
| "py_contains _ s = Inl TypeError"

text \<open>\<open>for item in v\<close>: the elements of a list, the characters of a string, the keys of a dict.\<close>

fun py_iter :: "'f pyval \<Rightarrow> py_error + 'f pyval list" where
  "py_iter (PList xs) = Inr xs"
| "py_iter (PStr s) = Inr (map (\<lambda>c. PStr [c]) s)"
| "py_iter (PDict kvs) = Inr (map (\<lambda>kv. PStr (fst kv)) kvs)"
| "py_iter _ = Inl TypeError"

text \<open>\<open>v.items()\<close>: only a dict has the method.\<close>

fun py_items :: "'f pyval \<Rightarrow> py_error + (string \<times> 'f pyval) list" where
  "py_items (PDict kvs) = Inr kvs"
| "py_items _ = Inl AttributeError"

subsection \<open>Statements\<close>

text \<open>
  A statement runs on a state and either completes or raises; when it raises, the state
  is the one reached at that point (the fields assigned so far keep their new values).
\<close>

type_synonym 's stmt = "'s \<Rightarrow> py_error option \<times> 's"

text \<open>\<open>self.field = expression\<close>\<close>

definition assign :: "py_error + 'a \<Rightarrow> ('a \<Rightarrow> 's \<Rightarrow> 's) \<Rightarrow> 's stmt" where
  "assign rhs store s = (case rhs of Inl e \<Rightarrow> (Some e, s) | Inr v \<Rightarrow> (None, store v s))"

text \<open>\<open>name = expression\<close>, the local variable in scope for the rest of the body\<close>

definition local_var :: "py_error + 'a \<Rightarrow> ('a \<Rightarrow> 's stmt) \<Rightarrow> 's stmt" where
  "local_var rhs body s = (case rhs of Inl e \<Rightarrow> (Some e, s) | Inr v \<Rightarrow> body v s)"

fun block :: "'s stmt list \<Rightarrow> 's stmt" where
  "block [] s = (None, s)"
| "block (st # rest) s =
     (case st s of (Some e, s') \<Rightarrow> (Some e, s') | (None, s') \<Rightarrow> block rest s')"


definition map_value :: "('a \<Rightarrow> 'b) \<Rightarrow> py_error + 'a \<Rightarrow> py_error + 'b" where
  "map_value f r = bind_value r (\<lambda>v. Inr (f v))"

section \<open>The upstream API\<close>

text \<open>
  \<open>requests.get(url, headers=..., params=..., timeout=10).json()\<close>. The network answers a
  request with a transport failure or with a response: a status code and a body, which
  decodes to a value or does not. The requests made are recorded in order.
  The source never looks at the status code.
\<close>

record request =
  req_url :: string
  req_headers :: "(string \<times> string) list"
  req_params :: "(string \<times> string option) list"
  req_timeout :: nat

datatype 'f http_outcome =
    ConnectionFailed
  | Response nat "'f pyval option"

record 'f network =
  respond :: "request \<Rightarrow> 'f http_outcome"
  sent :: "request list"

fun response_json :: "'f http_outcome \<Rightarrow> py_error + 'f pyval" where
  "response_json ConnectionFailed = Inl RequestException"
| "response_json (Response status None) = Inl JSONDecodeError"
| "response_json (Response status (Some v)) = Inr v"

definition requests_get_json ::
  "request \<Rightarrow> 'f network \<Rightarrow> (py_error + 'f pyval) \<times> 'f network" where
  "requests_get_json req net =
     (response_json (respond net req), net\<lparr>sent := sent net @ [req]\<rparr>)"

section \<open>MapDataCollector\<close>

record 'f MapDataCollector =
  map_uid :: "string option"
  map_player_name :: "string option"
  map_headers :: "(string \<times> string) list"
  current_map_name :: "'f pyval"
  current_map_duration :: "'f pyval"
  current_map_remaining :: "'f pyval"
  next_map_name :: "'f pyval"
  next_map_start :: "'f pyval"
  next_map_duration :: "'f pyval"

definition MapDataCollector_URL :: string where
  "MapDataCollector_URL = ''https://api.mozambiquehe.re/maprotation''"

definition MapDataCollector_init ::
  "string \<Rightarrow> string option \<Rightarrow> string option \<Rightarrow> 'f MapDataCollector" where
  "MapDataCollector_init api_key uid_arg player_name_arg =
     \<lparr> map_uid = uid_arg,
       map_player_name = player_name_arg,
       map_headers = [(''Authorization'', api_key)],
       current_map_name = PStr [],
       current_map_duration = PInt 0,
       current_map_remaining = PInt 0,
       next_map_name = PStr [],
       next_map_start = PInt 0,
       next_map_duration = PInt 0 \<rparr>"

definition map_request :: "'f MapDataCollector \<Rightarrow> request" where
  "map_request self =
     \<lparr> req_url = MapDataCollector_URL, req_headers = map_headers self,
       req_params = [], req_timeout = 10 \<rparr>"

text \<open>Lines 60-70, on the result of \<open>requests.get(...).json()\<close> (lines 56-58).\<close>

definition populate_map_fields :: "py_error + 'f pyval \<Rightarrow> 'f MapDataCollector stmt" where
  "populate_map_fields response =
          local_var response (\<lambda>map_rotation.
          local_var (getitem map_rotation ''current'') (\<lambda>current_map_data.
          local_var (getitem map_rotation ''next'') (\<lambda>next_map_data.
          block [
            assign (getitem current_map_data ''map'') (\<lambda>v s. s\<lparr>current_map_name := v\<rparr>),
            assign (getitem next_map_data ''map'') (\<lambda>v s. s\<lparr>next_map_name := v\<rparr>),
            assign (getitem current_map_data ''DurationInMinutes'')
              (\<lambda>v s. s\<lparr>current_map_duration := v\<rparr>),
            assign (getitem next_map_data ''DurationInMinutes'')
              (\<lambda>v s. s\<lparr>next_map_duration := v\<rparr>),
            assign (getitem current_map_data ''remainingMins'')
              (\<lambda>v s. s\<lparr>current_map_remaining := v\<rparr>),
            assign (getitem next_map_data ''start'') (\<lambda>v s. s\<lparr>next_map_start := v\<rparr>)
          ])))"

definition MapDataCollector_populate_data ::
  "'f MapDataCollector \<Rightarrow> 'f network
     \<Rightarrow> py_error option \<times> 'f MapDataCollector \<times> 'f network" where
  "MapDataCollector_populate_data self net =
     (case requests_get_json (map_request self) net of (response, net') \<Rightarrow>
       (case populate_map_fields response self of (e, self') \<Rightarrow> (e, self', net')))"

section \<open>PlayerStatsCollector\<close>

record 'f PlayerStatsCollector =
  uid :: "string option"
  platform :: "string option"
  player_name :: "string option"
  headers :: "(string \<times> string) list"
  player_identifier :: "'f pyval"
  player_platform :: "'f pyval"
  level :: "'f pyval"
  next_level_percentage :: "'f pyval"
  banned :: "'f pyval"
  ban_duration :: "'f pyval"
  br_rank_name :: "'f pyval"
  br_rank_score :: "'f pyval"
  br_rank_div :: "'f pyval"
  arena_rank_name :: "'f pyval"
  arena_rank_score :: "'f pyval"
  arena_rank_div :: "'f pyval"
  battle_pass_level :: "'f pyval"
  battle_pass_history :: "'f pyval"
  lobby_state :: "'f pyval"
  is_online :: bool
  is_in_game :: bool
  party_full :: bool
  selected_legend :: "'f pyval"
  current_state :: "'f pyval"
  current_legend_name :: "'f pyval"
  current_legend_br_kills :: "'f pyval"
  all_legends_kills :: "(string \<times> 'f pyval) list"
  kills :: "'f pyval"
  kill_death_ratio :: "'f pyval"
  mozambique_cluster_server :: "'f pyval"
  processing_time :: "'f pyval"

definition PlayerStatsCollector_URL :: string where
  "PlayerStatsCollector_URL = ''https://api.mozambiquehe.re/bridge''"

definition PlayerStatsCollector_init ::
  "string \<Rightarrow> string option \<Rightarrow> string option \<Rightarrow> string option \<Rightarrow> 'f PlayerStatsCollector" where
  "PlayerStatsCollector_init api_key uid_arg player_name_arg platform_arg =
     \<lparr> uid = uid_arg,
       platform = platform_arg,
       player_name = player_name_arg,
       headers = [(''Authorization'', api_key)],
       player_identifier = PStr [],
       player_platform = PStr [],
       level = PInt 0,
       next_level_percentage = PInt 0,
       banned = PStr [],
       ban_duration = PInt 0,
       br_rank_name = PStr [],
       br_rank_score = PInt 0,
       br_rank_div = PInt 0,
       arena_rank_name = PStr [],
       arena_rank_score = PInt 0,
       arena_rank_div = PInt 0,
       battle_pass_level = PInt 0,
       battle_pass_history = PInt 0,
       lobby_state = PStr [],
       is_online = False,
       is_in_game = False,
       party_full = False,
       selected_legend = PStr [],
       current_state = PStr [],
       current_legend_name = PStr [],
       current_legend_br_kills = PInt 0,
       all_legends_kills = [],
       kills = PInt 0,
       kill_death_ratio = PStr [],
       mozambique_cluster_server = PStr [],
       processing_time = PInt 0 \<rparr>"

text \<open>The truth value of an optional string: \<open>None\<close> and the empty string are false.\<close>

fun str_set :: "string option \<Rightarrow> bool" where
  "str_set None = False"
| "str_set (Some s) = (s \<noteq> [])"

text \<open>Lines 166-179: the request is by name when \<open>self.player_name\<close> is true, else by uid.\<close>

definition player_request :: "'f PlayerStatsCollector \<Rightarrow> request" where
  "player_request self =
     (if str_set (player_name self)
      then \<lparr> req_url = PlayerStatsCollector_URL, req_headers = headers self,
             req_params = [(''player_name'', player_name self), (''platform'', platform self)],
             req_timeout = 10 \<rparr>
      else \<lparr> req_url = PlayerStatsCollector_URL, req_headers = headers self,
             req_params = [(''uid'', uid self), (''platform'', platform self)],
             req_timeout = 10 \<rparr>)"

text \<open>
  Lines 233-240: \<open>next((item["value"] for item in data if item["key"] == "kills"), 0)\<close>.
  The generator stops at the first item whose key is "kills"; the items before it are
  subscripted with "key", the items after it are never looked at.
\<close>

fun first_kills :: "'f pyval list \<Rightarrow> py_error + 'f pyval" where
  "first_kills [] = Inr (PInt 0)"
| "first_kills (item # items) =
     (case getitem item ''key'' of
        Inl e \<Rightarrow> Inl e
      | Inr k \<Rightarrow> if py_eq_str k ''kills'' then getitem item ''value'' else first_kills items)"

definition kill_value_of :: "'f pyval \<Rightarrow> py_error + 'f pyval" where
  "kill_value_of legend_info =
     bind_value (getitem legend_info ''data'') (\<lambda>data. bind_value (py_iter data) first_kills)"

text \<open>
  Lines 227-242: the loop over \<open>player_legends_kills.items()\<close>. Its body writes nothing
  but the dict \<open>self.all_legends_kills\<close>, which is the state of the loop here.
\<close>

fun legends_loop ::
  "'f py_runtime \<Rightarrow> (string \<times> 'f pyval) list \<Rightarrow> (string \<times> 'f pyval) list stmt" where
  "legends_loop rt [] kills_dict = (None, kills_dict)"
| "legends_loop rt ((legend_name, legend_info) # rest) kills_dict =
     (if legend_name = ''Global'' then legends_loop rt rest kills_dict
      else
        (case py_contains legend_info ''data'' of
           Inl e \<Rightarrow> (Some e, kills_dict)
         | Inr present \<Rightarrow>
             if \<not> present then legends_loop rt rest kills_dict
             else
               (case kill_value_of legend_info of
                  Inl e \<Rightarrow> (Some e, kills_dict)
                | Inr kill_value \<Rightarrow>
                    if py_ne_zero rt kill_value
                    then legends_loop rt rest (AList.update legend_name kill_value kills_dict)
                    else legends_loop rt rest kills_dict)))"

definition for_legends ::
  "'f py_runtime \<Rightarrow> 'f pyval \<Rightarrow> 'f PlayerStatsCollector stmt" where
  "for_legends rt player_legends_kills self =
     (case py_items player_legends_kills of
        Inl e \<Rightarrow> (Some e, self)
      | Inr items \<Rightarrow>
          (case legends_loop rt items (all_legends_kills self) of
             (e, kills_dict) \<Rightarrow> (e, self\<lparr>all_legends_kills := kills_dict\<rparr>)))"

text \<open>Lines 181-252, on the result of \<open>requests.get(...).json()\<close> (lines 166-179).\<close>

definition populate_player_fields ::
  "'f py_runtime \<Rightarrow> py_error + 'f pyval \<Rightarrow> 'f PlayerStatsCollector stmt" where
  "populate_player_fields rt response =
          local_var response (\<lambda>player_stats.
          local_var (getitem player_stats ''global'') (\<lambda>player_info_data.
          local_var (getitem player_stats ''realtime'') (\<lambda>player_realtime_data.
          local_var (getpath player_stats [''legends'', ''selected''])
            (\<lambda>player_current_legend_data.
          local_var (getpath player_stats [''legends'', ''all'']) (\<lambda>player_legends_kills.
          local_var (getitem player_stats ''mozambiquehere_internal'')
            (\<lambda>player_mozambique_data.
          local_var (getitem player_stats ''total'') (\<lambda>player_total_data.
          local_var (getitem player_stats ''processingTime'') (\<lambda>api_data.
          block [
            assign (getitem player_info_data ''name'') (\<lambda>v s. s\<lparr>player_identifier := v\<rparr>),
            assign (getitem player_info_data ''platform'') (\<lambda>v s. s\<lparr>player_platform := v\<rparr>),
            assign (getitem player_info_data ''level'') (\<lambda>v s. s\<lparr>level := v\<rparr>),
            assign (getitem player_info_data ''toNextLevelPercent'')
              (\<lambda>v s. s\<lparr>next_level_percentage := v\<rparr>),
            assign (getpath player_info_data [''bans'', ''isActive''])
              (\<lambda>v s. s\<lparr>banned := v\<rparr>),
            assign (getpath player_info_data [''bans'', ''remainingSeconds''])
              (\<lambda>v s. s\<lparr>ban_duration := v\<rparr>),
            assign (getpath player_info_data [''rank'', ''rankName''])
              (\<lambda>v s. s\<lparr>br_rank_name := v\<rparr>),
            assign (getpath player_info_data [''rank'', ''rankScore''])
              (\<lambda>v s. s\<lparr>br_rank_score := v\<rparr>),
            assign (getpath player_info_data [''rank'', ''rankDiv''])
              (\<lambda>v s. s\<lparr>br_rank_div := v\<rparr>),
            assign (getpath player_info_data [''arena'', ''rankName''])
              (\<lambda>v s. s\<lparr>arena_rank_name := v\<rparr>),
            assign (getpath player_info_data [''arena'', ''rankScore''])
              (\<lambda>v s. s\<lparr>arena_rank_score := v\<rparr>),
            assign (getpath player_info_data [''arena'', ''rankDiv''])
              (\<lambda>v s. s\<lparr>arena_rank_div := v\<rparr>),
            assign (map_value (\<lambda>v. py_or rt v (PInt 0))
                      (getpath player_info_data [''battlepass'', ''level'']))
              (\<lambda>v s. s\<lparr>battle_pass_level := v\<rparr>),
            assign (map_value (\<lambda>v. py_or rt v (PInt 0))
                      (getpath player_info_data [''battlepass'', ''history'']))
              (\<lambda>v s. s\<lparr>battle_pass_history := v\<rparr>),
            assign (getitem player_realtime_data ''lobbyState'') (\<lambda>v s. s\<lparr>lobby_state := v\<rparr>),
            assign (map_value (py_bool rt) (getitem player_realtime_data ''isOnline''))
              (\<lambda>v s. s\<lparr>is_online := v\<rparr>),
            assign (map_value (py_bool rt) (getitem player_realtime_data ''isInGame''))
              (\<lambda>v s. s\<lparr>is_in_game := v\<rparr>),
            assign (map_value (py_bool rt) (getitem player_realtime_data ''partyFull''))
              (\<lambda>v s. s\<lparr>party_full := v\<rparr>),
            assign (getitem player_realtime_data ''selectedLegend'')
              (\<lambda>v s. s\<lparr>selected_legend := v\<rparr>),
            assign (getitem player_realtime_data ''currentState'')
              (\<lambda>v s. s\<lparr>current_state := v\<rparr>),
            assign (getitem player_current_legend_data ''LegendName'')
              (\<lambda>v s. s\<lparr>current_legend_name := v\<rparr>),
            assign (bind_value (getitem player_current_legend_data ''data'') (\<lambda>data.
                      bind_value (getitem_index data 0) (\<lambda>entry. getitem entry ''value'')))
              (\<lambda>v s. s\<lparr>current_legend_br_kills := v\<rparr>),
            block [
              assign (Inr []) (\<lambda>v s. s\<lparr>all_legends_kills := v\<rparr>),
              for_legends rt player_legends_kills],
            assign (getpath player_total_data [''kills'', ''value'']) (\<lambda>v s. s\<lparr>kills := v\<rparr>),
            assign (map_value PFloat
                      (bind_value (getpath player_total_data [''kd'', ''value'']) (py_float rt)))
              (\<lambda>v s. s\<lparr>kill_death_ratio := v\<rparr>),
            assign (getitem player_mozambique_data ''clusterSrv'')
              (\<lambda>v s. s\<lparr>mozambique_cluster_server := v\<rparr>),
            assign (Inr api_data) (\<lambda>v s. s\<lparr>processing_time := v\<rparr>)
          ]))))))))"

definition PlayerStatsCollector_populate_data ::
  "'f py_runtime \<Rightarrow> 'f PlayerStatsCollector \<Rightarrow> 'f network
     \<Rightarrow> py_error option \<times> 'f PlayerStatsCollector \<times> 'f network" where
  "PlayerStatsCollector_populate_data rt self net =
     (case requests_get_json (player_request self) net of (response, net') \<Rightarrow>
       (case populate_player_fields rt response self of (e, self') \<Rightarrow> (e, self', net')))"


section \<open>ApexCollector\<close>

text \<open>
  The instruments of \<open>prometheus_client\<close> that \<open>__init__\<close> creates (lines 269-425), each
  with the value it holds: a Gauge holds a float, an Info holds the dict last passed to
  \<open>info\<close>, the labelled Gauge \<open>player_legend_kills\<close> holds one float for each label value
  it was asked for. The field of an instrument is named \<open>metric_\<close> and the attribute's name.
\<close>

record 'f ApexCollector =
  metric_current_session_map :: "(string \<times> 'f pyval) list"
  metric_current_session_duration :: 'f
  metric_current_session_remaining :: 'f
  metric_next_session_map :: "(string \<times> 'f pyval) list"
  metric_next_session_start :: 'f
  metric_next_session_duration :: 'f
  metric_player_identifier :: "(string \<times> 'f pyval) list"
  metric_player_platform :: "(string \<times> 'f pyval) list"
  metric_level :: 'f
  metric_next_level_percentage :: 'f
  metric_banned :: "(string \<times> 'f pyval) list"
  metric_ban_duration :: 'f
  metric_br_rank_name :: "(string \<times> 'f pyval) list"
  metric_br_rank_score :: 'f
  metric_br_rank_div :: 'f
  metric_arena_rank_name :: "(string \<times> 'f pyval) list"
  metric_arena_rank_score :: 'f
  metric_arena_rank_div :: 'f
  metric_battle_pass_level :: 'f
  metric_battle_pass_history :: 'f
  metric_lobby_state :: "(string \<times> 'f pyval) list"
  metric_is_online :: 'f
  metric_is_in_game :: 'f
  metric_party_full :: "(string \<times> 'f pyval) list"
  metric_selected_legend :: "(string \<times> 'f pyval) list"
  metric_active_legend :: "(string \<times> 'f pyval) list"
  metric_active_legend_kills :: 'f
  metric_current_state :: "(string \<times> 'f pyval) list"
  metric_legend_kills :: "(string \<times> 'f) list"
  metric_kills :: 'f
  metric_kill_death_ratio :: 'f
  metric_mozambique_cluster_server :: "(string \<times> 'f pyval) list"
  metric_processing_time :: 'f
  player_stats_collector :: "'f PlayerStatsCollector"
  map_stats_collector :: "'f MapDataCollector"

definition ApexCollector_init ::
  "'f py_runtime \<Rightarrow> 'f PlayerStatsCollector \<Rightarrow> 'f MapDataCollector \<Rightarrow> 'f ApexCollector" where
  "ApexCollector_init rt player_stats map_stats =
     \<lparr> metric_current_session_map = [],
       metric_current_session_duration = float_zero rt,
       metric_current_session_remaining = float_zero rt,
       metric_next_session_map = [],
       metric_next_session_start = float_zero rt,
       metric_next_session_duration = float_zero rt,
       metric_player_identifier = [],
       metric_player_platform = [],
       metric_level = float_zero rt,
       metric_next_level_percentage = float_zero rt,
       metric_banned = [],
       metric_ban_duration = float_zero rt,
       metric_br_rank_name = [],
       metric_br_rank_score = float_zero rt,
       metric_br_rank_div = float_zero rt,
       metric_arena_rank_name = [],
       metric_arena_rank_score = float_zero rt,
       metric_arena_rank_div = float_zero rt,
       metric_battle_pass_level = float_zero rt,
       metric_battle_pass_history = float_zero rt,
       metric_lobby_state = [],
       metric_is_online = float_zero rt,
       metric_is_in_game = float_zero rt,
       metric_party_full = [],
       metric_selected_legend = [],
       metric_active_legend = [],
       metric_active_legend_kills = float_zero rt,
       metric_current_state = [],
       metric_legend_kills = [],
       metric_kills = float_zero rt,
       metric_kill_death_ratio = float_zero rt,
       metric_mozambique_cluster_server = [],
       metric_processing_time = float_zero rt,
       player_stats_collector = player_stats,
       map_stats_collector = map_stats \<rparr>"

text \<open>
  \<open>gauge.set(value)\<close> stores \<open>float(value)\<close>, and raises what \<open>float\<close> raises;
  \<open>info.info({label: value})\<close> stores the dict as it is given.
\<close>

definition gauge_set :: "'f py_runtime \<Rightarrow> 'f pyval \<Rightarrow> ('f \<Rightarrow> 's \<Rightarrow> 's) \<Rightarrow> 's stmt" where
  "gauge_set rt v store = assign (py_float rt v) store"

definition info_set ::
  "string \<Rightarrow> 'f pyval \<Rightarrow> ((string \<times> 'f pyval) list \<Rightarrow> 's \<Rightarrow> 's) \<Rightarrow> 's stmt" where
  "info_set label v store = assign (Inr [(label, v)]) store"

text \<open>
  Lines 498-499: \<open>self.legend_kills.labels(legend_name).set(kills)\<close> for each item of
  \<open>all_legends_kills\<close>. The loop writes nothing but the children of the labelled gauge.
\<close>

fun set_legend_kills ::
  "'f py_runtime \<Rightarrow> (string \<times> 'f pyval) list \<Rightarrow> (string \<times> 'f) list stmt" where
  "set_legend_kills rt [] children = (None, children)"
| "set_legend_kills rt ((legend_name, kills_value) # rest) children =
     (case py_float rt kills_value of
        Inl e \<Rightarrow> (Some e, children)
      | Inr f \<Rightarrow> set_legend_kills rt rest (AList.update legend_name f children))"

definition for_legend_kills ::
  "'f py_runtime \<Rightarrow> (string \<times> 'f pyval) list \<Rightarrow> 'f ApexCollector stmt" where
  "for_legend_kills rt kills_dict self =
     (case set_legend_kills rt kills_dict (metric_legend_kills self) of
        (e, children) \<Rightarrow> (e, self\<lparr>metric_legend_kills := children\<rparr>))"

text \<open>
  Lines 444-507, the instruments written from the two collectors \<open>p\<close> (player) and
  \<open>m\<close> (map), in the order of the source.
\<close>

definition project ::
  "'f py_runtime \<Rightarrow> 'f PlayerStatsCollector \<Rightarrow> 'f MapDataCollector \<Rightarrow> 'f ApexCollector stmt" where
  "project rt p m =
     block [
       info_set ''map_name'' (current_map_name m) (\<lambda>v s. s\<lparr>metric_current_session_map := v\<rparr>),
       gauge_set rt (current_map_duration m) (\<lambda>v s. s\<lparr>metric_current_session_duration := v\<rparr>),
       gauge_set rt (current_map_remaining m)
         (\<lambda>v s. s\<lparr>metric_current_session_remaining := v\<rparr>),
       info_set ''next_map_name'' (next_map_name m) (\<lambda>v s. s\<lparr>metric_next_session_map := v\<rparr>),
       gauge_set rt (next_map_duration m) (\<lambda>v s. s\<lparr>metric_next_session_duration := v\<rparr>),
       gauge_set rt (next_map_start m) (\<lambda>v s. s\<lparr>metric_next_session_start := v\<rparr>),
       info_set ''player_identifier'' (player_identifier p)
         (\<lambda>v s. s\<lparr>metric_player_identifier := v\<rparr>),
       info_set ''platform'' (player_platform p) (\<lambda>v s. s\<lparr>metric_player_platform := v\<rparr>),
       gauge_set rt (level p) (\<lambda>v s. s\<lparr>metric_level := v\<rparr>),
       gauge_set rt (next_level_percentage p) (\<lambda>v s. s\<lparr>metric_next_level_percentage := v\<rparr>),
       info_set ''banned'' (PStr (py_str rt (banned p))) (\<lambda>v s. s\<lparr>metric_banned := v\<rparr>),
       gauge_set rt (ban_duration p) (\<lambda>v s. s\<lparr>metric_ban_duration := v\<rparr>),
       info_set ''br_rank_name'' (br_rank_name p) (\<lambda>v s. s\<lparr>metric_br_rank_name := v\<rparr>),
       gauge_set rt (br_rank_score p) (\<lambda>v s. s\<lparr>metric_br_rank_score := v\<rparr>),
       gauge_set rt (br_rank_div p) (\<lambda>v s. s\<lparr>metric_br_rank_div := v\<rparr>),
       info_set ''arena_rank_name'' (arena_rank_name p)
         (\<lambda>v s. s\<lparr>metric_arena_rank_name := v\<rparr>),
       gauge_set rt (arena_rank_score p) (\<lambda>v s. s\<lparr>metric_arena_rank_score := v\<rparr>),
       gauge_set rt (arena_rank_div p) (\<lambda>v s. s\<lparr>metric_arena_rank_div := v\<rparr>),
       gauge_set rt (battle_pass_level p) (\<lambda>v s. s\<lparr>metric_battle_pass_level := v\<rparr>),
       gauge_set rt (battle_pass_history p) (\<lambda>v s. s\<lparr>metric_battle_pass_history := v\<rparr>),
       info_set ''lobby_state'' (lobby_state p) (\<lambda>v s. s\<lparr>metric_lobby_state := v\<rparr>),
       gauge_set rt (py_int_of_bool (is_online p)) (\<lambda>v s. s\<lparr>metric_is_online := v\<rparr>),
       gauge_set rt (py_int_of_bool (is_in_game p)) (\<lambda>v s. s\<lparr>metric_is_in_game := v\<rparr>),
       info_set ''party_full'' (PStr (py_str rt (PBool (party_full p))))
         (\<lambda>v s. s\<lparr>metric_party_full := v\<rparr>),
       info_set ''selected_legend'' (selected_legend p)
         (\<lambda>v s. s\<lparr>metric_selected_legend := v\<rparr>),
       info_set ''active_legend'' (current_legend_name p)
         (\<lambda>v s. s\<lparr>metric_active_legend := v\<rparr>),
       gauge_set rt (current_legend_br_kills p) (\<lambda>v s. s\<lparr>metric_active_legend_kills := v\<rparr>),
       info_set ''current_state'' (current_state p) (\<lambda>v s. s\<lparr>metric_current_state := v\<rparr>),
       for_legend_kills rt (all_legends_kills p),
       gauge_set rt (kills p) (\<lambda>v s. s\<lparr>metric_kills := v\<rparr>),
       assign (bind_value (py_float rt (kill_death_ratio p)) (\<lambda>f. py_float rt (PFloat f)))
         (\<lambda>v s. s\<lparr>metric_kill_death_ratio := v\<rparr>),
       info_set ''mozambique_cluster_server'' (mozambique_cluster_server p)
         (\<lambda>v s. s\<lparr>metric_mozambique_cluster_server := v\<rparr>),
       gauge_set rt (processing_time p) (\<lambda>v s. s\<lparr>metric_processing_time := v\<rparr>)
     ]"

text \<open>
  Lines 431-507. The player statistics are fetched first (line 436), the map rotation
  second (line 437); no instrument is written before both calls have returned.
\<close>

definition ApexCollector_collect ::
  "'f py_runtime \<Rightarrow> 'f ApexCollector \<Rightarrow> 'f network
     \<Rightarrow> py_error option \<times> 'f ApexCollector \<times> 'f network" where
  "ApexCollector_collect rt self net =
     (case PlayerStatsCollector_populate_data rt (player_stats_collector self) net of
        (Some e, p, net1) \<Rightarrow> (Some e, self\<lparr>player_stats_collector := p\<rparr>, net1)
      | (None, p, net1) \<Rightarrow>
          (case MapDataCollector_populate_data (map_stats_collector self) net1 of
             (Some e, m, net2) \<Rightarrow>
               (Some e, self\<lparr>player_stats_collector := p, map_stats_collector := m\<rparr>, net2)
           | (None, m, net2) \<Rightarrow>
               (case project rt p m
                       (self\<lparr>player_stats_collector := p, map_stats_collector := m\<rparr>)
                of (e, self') \<Rightarrow> (e, self', net2))))"

text \<open>The instruments under their metric names, as a scrape reads them.\<close>

datatype 'f metric =
    Gauge 'f
  | Info "(string \<times> 'f pyval) list"
  | LabelledGauge "(string \<times> 'f) list"

definition instruments :: "'f ApexCollector \<Rightarrow> (string \<times> 'f metric) list" where
  "instruments self =
     [ (''apex_current_map'', Info (metric_current_session_map self)),
       (''apex_current_map_duration_total'', Gauge (metric_current_session_duration self)),
       (''apex_current_map_remaining_total'', Gauge (metric_current_session_remaining self)),
       (''apex_next_map'', Info (metric_next_session_map self)),
       (''apex_next_map_start_total'', Gauge (metric_next_session_start self)),
       (''apex_next_map_duration_minutes'', Gauge (metric_next_session_duration self)),
       (''apex_player_identifier'', Info (metric_player_identifier self)),
       (''player_platform'', Info (metric_player_platform self)),
       (''player_level'', Gauge (metric_level self)),
       (''player_next_level_percentage'', Gauge (metric_next_level_percentage self)),
       (''player_banned'', Info (metric_banned self)),
       (''player_ban_duration'', Gauge (metric_ban_duration self)),
       (''player_br_rank_name'', Info (metric_br_rank_name self)),
       (''player_br_rank_score'', Gauge (metric_br_rank_score self)),
       (''player_br_rank_div'', Gauge (metric_br_rank_div self)),
       (''player_arena_rank_name'', Info (metric_arena_rank_name self)),
       (''player_arena_rank_score'', Gauge (metric_arena_rank_score self)),
       (''player_arena_rank_div'', Gauge (metric_arena_rank_div self)),
       (''player_battle_pass_level'', Gauge (metric_battle_pass_level self)),
       (''player_battle_pass_history'', Gauge (metric_battle_pass_history self)),
       (''player_lobby_state'', Info (metric_lobby_state self)),
       (''player_is_online'', Gauge (metric_is_online self)),
       (''player_is_in_game'', Gauge (metric_is_in_game self)),
       (''player_party_full'', Info (metric_party_full self)),
       (''player_selected_legend'', Info (metric_selected_legend self)),
       (''player_active_legend'', Info (metric_active_legend self)),
       (''player_active_legend_kills'', Gauge (metric_active_legend_kills self)),
       (''player_current_state'', Info (metric_current_state self)),
       (''player_legend_kills'', LabelledGauge (metric_legend_kills self)),
       (''player_kills_total'', Gauge (metric_kills self)),
       (''player_kill_death_ratio'', Gauge (metric_kill_death_ratio self)),
       (''player_mozambique_cluster_server'', Info (metric_mozambique_cluster_server self)),
       (''player_processing_time'', Gauge (metric_processing_time self)) ]"

section \<open>Start-up checks\<close>

text \<open>
  Lines 518-528: \<open>os.environ.get(name)\<close> is true when the variable is set and not empty.
  The result is the status of \<open>sys.exit\<close>, or \<open>None\<close> when the program goes on.
\<close>

definition environ_set :: "(string \<Rightarrow> string option) \<Rightarrow> string \<Rightarrow> bool" where
  "environ_set environ name = str_set (environ name)"

definition main_checks :: "(string \<Rightarrow> string option) \<Rightarrow> nat option" where
  "main_checks environ =
     (if \<not> environ_set environ ''USER_ID'' \<and> \<not> environ_set environ ''PLAYER_NAME'' then Some 1
      else if environ_set environ ''USER_ID'' \<and> environ_set environ ''PLAYER_NAME'' then Some 1
      else if \<not> environ_set environ ''API_KEY'' then Some 1
      else None)"


section \<open>Worked examples\<close>

text \<open>
  A runtime for the examples: a float is a rational number, \<open>float(i)\<close> is exact (as it is
  in CPython for integers up to \<open>2 ^ 53\<close>). The examples convert no string to a float and
  print only booleans, so \<open>float_of_str\<close> and \<open>str_of\<close> are never reached.
\<close>

definition example_runtime :: "rat py_runtime" where
  "example_runtime =
     \<lparr> float_is_zero = (\<lambda>f. f = 0),
       float_of_int = (\<lambda>i. Some (of_int i)),
       float_of_str = (\<lambda>s. None),
       float_zero = 0,
       str_of = (\<lambda>v. []) \<rparr>"

text \<open>The map-rotation document of the specification's end-to-end scenario.\<close>

definition example_map_rotation :: "rat pyval" where
  "example_map_rotation =
     PDict [
       (''current'', PDict [(''map'', PStr ''Kings Canyon''), (''DurationInMinutes'', PInt 45),
                            (''remainingMins'', PInt 10)]),
       (''next'', PDict [(''map'', PStr (''World'' @ [CHR 0x27] @ ''s Edge'')),
                         (''DurationInMinutes'', PInt 45), (''start'', PInt 1700000000)])]"

text \<open>The "all legends" collection of the specification's example.\<close>

definition example_all_legends :: "rat pyval" where
  "example_all_legends =
     PDict [
       (''Global'', PDict [(''data'', PList [PDict [(''key'', PStr ''kills''), (''value'', PInt 99)]])]),
       (''Wraith'', PDict [(''data'', PList [PDict [(''key'', PStr ''kills''), (''value'', PInt 12)]])]),
       (''Bangalore'', PDict [(''data'', PList [PDict [(''key'', PStr ''kills''), (''value'', PInt 0)]])]),
       (''Octane'', PDict [])]"

text \<open>
  A player-statistics document around a given "all legends" collection. The first detail
  entry of the selected legend is not its kill count; the battle-pass history is \<open>false\<close>.
\<close>

definition player_stats_document :: "rat pyval \<Rightarrow> rat pyval" where
  "player_stats_document all_legends =
     PDict [
       (''global'', PDict [
          (''name'', PStr ''Heartbreaker''),
          (''platform'', PStr ''PC''),
          (''level'', PInt 120),
          (''toNextLevelPercent'', PInt 40),
          (''bans'', PDict [(''isActive'', PBool False), (''remainingSeconds'', PInt 0)]),
          (''rank'', PDict [(''rankName'', PStr ''Gold''), (''rankScore'', PInt 5400),
                            (''rankDiv'', PInt 2)]),
          (''arena'', PDict [(''rankName'', PStr ''Unranked''), (''rankScore'', PInt 0),
                             (''rankDiv'', PInt 0)]),
          (''battlepass'', PDict [(''level'', PInt 17), (''history'', PBool False)])]),
       (''realtime'', PDict [
          (''lobbyState'', PStr ''open''),
          (''isOnline'', PInt 1),
          (''isInGame'', PInt 0),
          (''partyFull'', PInt 0),
          (''selectedLegend'', PStr ''Wraith''),
          (''currentState'', PStr ''online'')]),
       (''legends'', PDict [
          (''selected'', PDict [
             (''LegendName'', PStr ''Wraith''),
             (''data'', PList [
                PDict [(''key'', PStr ''wins''), (''value'', PInt 7)],
                PDict [(''key'', PStr ''kills''), (''value'', PInt 12)]])]),
          (''all'', all_legends)]),
       (''mozambiquehere_internal'', PDict [(''clusterSrv'', PStr ''Main-1'')]),
       (''total'', PDict [(''kills'', PDict [(''value'', PInt 12)]),
                          (''kd'', PDict [(''value'', PInt 2)])]),
       (''processingTime'', PFloat (3 / 10))]"

definition example_player_stats :: "rat pyval" where
  "example_player_stats = player_stats_document example_all_legends"

text \<open>
  A larger collection: the one of the specification's example, and three more legends.
  \<open>Pathfinder\<close> has a detail list with no entry for \<open>kills\<close>, \<open>Lifeline\<close> has an empty detail
  list, and the \<open>kills\<close> entry of \<open>Mirage\<close> is not the first entry of its list.
\<close>

definition example_more_legends :: "rat pyval" where
  "example_more_legends =
     PDict [
       (''Global'', PDict [(''data'', PList [PDict [(''key'', PStr ''kills''), (''value'', PInt 99)]])]),
       (''Wraith'', PDict [(''data'', PList [PDict [(''key'', PStr ''kills''), (''value'', PInt 12)]])]),
       (''Bangalore'', PDict [(''data'', PList [PDict [(''key'', PStr ''kills''), (''value'', PInt 0)]])]),
       (''Octane'', PDict []),
       (''Pathfinder'', PDict [(''data'', PList [PDict [(''key'', PStr ''wins''), (''value'', PInt 3)]])]),
       (''Lifeline'', PDict [(''data'', PList [])]),
       (''Mirage'', PDict [(''data'', PList [PDict [(''key'', PStr ''wins''), (''value'', PInt 1)],
                                            PDict [(''key'', PStr ''kills''), (''value'', PInt 5)]])])]"

text \<open>An upstream that answers each endpoint with a given outcome; nothing sent yet.\<close>

definition upstream :: "'f http_outcome \<Rightarrow> 'f http_outcome \<Rightarrow> 'f network" where
  "upstream player_outcome map_outcome =
     \<lparr> respond = (\<lambda>req. if req_url req = PlayerStatsCollector_URL then player_outcome
                        else map_outcome),
       sent = [] \<rparr>"

definition example_upstream :: "rat network" where
  "example_upstream =
     upstream (Response 200 (Some example_player_stats)) (Response 200 (Some example_map_rotation))"

text \<open>Collectors as the main program builds them, here for a player given by name.\<close>

definition example_player :: "rat PlayerStatsCollector" where
  "example_player = PlayerStatsCollector_init ''secret'' None (Some ''Heartbreaker'') (Some ''PC'')"

definition example_map :: "rat MapDataCollector" where
  "example_map = MapDataCollector_init ''secret'' None (Some ''Heartbreaker'')"

definition example_collector :: "rat ApexCollector" where
  "example_collector = ApexCollector_init example_runtime example_player example_map"


section \<open>The per-legend kill mapping in the words of the specification\<close>

text \<open>
  These three definitions follow the specification, not the source: a legend entry has a
  detail list when it has a member \<open>data\<close>; its kill count is the value of the first entry
  of that list whose key is \<open>kills\<close>, zero when there is none; the mapping holds, in the
  order of the collection, every legend but \<open>Global\<close> that has a detail list and a
  kill count other than zero. They are compared with \<open>legends_loop\<close> below.
\<close>

definition spec_has_detail_list :: "'f pyval \<Rightarrow> bool" where
  "spec_has_detail_list legend_info = (\<not> isl (getitem legend_info ''data''))"

definition spec_kill_count :: "'f pyval \<Rightarrow> 'f pyval" where
  "spec_kill_count legend_info =
     (case getitem legend_info ''data'' of
        Inr (PList entries) \<Rightarrow>
          (case find (\<lambda>entry. getitem entry ''key'' = Inr (PStr ''kills'')) entries of
             Some entry \<Rightarrow> (case getitem entry ''value'' of Inr v \<Rightarrow> v | Inl e \<Rightarrow> PInt 0)
           | None \<Rightarrow> PInt 0)
      | _ \<Rightarrow> PInt 0)"

definition spec_legend_kills ::
  "'f py_runtime \<Rightarrow> (string \<times> 'f pyval) list \<Rightarrow> (string \<times> 'f pyval) list" where
  "spec_legend_kills rt all_legends =
     map (\<lambda>(legend_name, legend_info). (legend_name, spec_kill_count legend_info))
       (filter (\<lambda>(legend_name, legend_info).
                  legend_name \<noteq> ''Global'' \<and> spec_has_detail_list legend_info
                    \<and> py_ne_zero rt (spec_kill_count legend_info))
          all_legends)"

section \<open>The documented shape of the player statistics\<close>

text \<open>
  The shape the specification documents for the upstream's answer, as far as the fetch
  reads it. An entry of a detail list is an object with the members \<open>key\<close> and \<open>value\<close>; a
  legend is an object whose member \<open>data\<close>, when it has one, is a list of such entries;
  the collection of all legends is an object (its names are distinct) whose legends have
  this shape, whatever stands under the synthetic name \<open>Global\<close>;
  in a player-statistics document every member that lines 181-252 read is present, the
  detail list of the selected legend has a first entry with a \<open>value\<close>, and the
  kill/death ratio is a value that \<open>float\<close> accepts.
\<close>

definition detail_entry_shaped :: "'f pyval \<Rightarrow> bool" where
  "detail_entry_shaped entry =
     (\<not> isl (getitem entry ''key'') \<and> \<not> isl (getitem entry ''value''))"

definition legend_shaped :: "'f pyval \<Rightarrow> bool" where
  "legend_shaped legend_info =
     (case legend_info of
        PDict members \<Rightarrow>
          (case map_of members ''data'' of
             None \<Rightarrow> True
           | Some (PList entries) \<Rightarrow> list_all detail_entry_shaped entries
           | Some _ \<Rightarrow> False)
      | _ \<Rightarrow> False)"

definition legends_shaped :: "(string \<times> 'f pyval) list \<Rightarrow> bool" where
  "legends_shaped all_legends =
     (distinct (map fst all_legends)
      \<and> list_all (\<lambda>legend. fst legend = ''Global'' \<or> legend_shaped (snd legend)) all_legends)"

definition player_stats_shaped :: "'f py_runtime \<Rightarrow> 'f pyval \<Rightarrow> bool" where
  "player_stats_shaped rt player_stats =
     (list_all (\<lambda>path. \<not> isl (getpath player_stats path))
        [[''global'', ''name''],
         [''global'', ''platform''],
         [''global'', ''level''],
         [''global'', ''toNextLevelPercent''],
         [''global'', ''bans'', ''isActive''],
         [''global'', ''bans'', ''remainingSeconds''],
         [''global'', ''rank'', ''rankName''],
         [''global'', ''rank'', ''rankScore''],
         [''global'', ''rank'', ''rankDiv''],
         [''global'', ''arena'', ''rankName''],
         [''global'', ''arena'', ''rankScore''],
         [''global'', ''arena'', ''rankDiv''],
         [''global'', ''battlepass'', ''level''],
         [''global'', ''battlepass'', ''history''],
         [''realtime'', ''lobbyState''],
         [''realtime'', ''isOnline''],
         [''realtime'', ''isInGame''],
         [''realtime'', ''partyFull''],
         [''realtime'', ''selectedLegend''],
         [''realtime'', ''currentState''],
         [''legends'', ''selected'', ''LegendName''],
         [''legends'', ''all''],
         [''mozambiquehere_internal'', ''clusterSrv''],
         [''total'', ''kills'', ''value''],
         [''processingTime'']]
      \<and> \<not> isl (bind_value (getpath player_stats [''legends'', ''selected'', ''data''])
                  (\<lambda>data. bind_value (getitem_index data 0) (\<lambda>entry. getitem entry ''value'')))
      \<and> \<not> isl (bind_value (getpath player_stats [''total'', ''kd'', ''value'']) (py_float rt)))"

section \<open>Notions used in the proofs\<close>

text \<open>
  A statement is \<open>state_free\<close> when whether it raises does not depend on the state it runs
  on and running it a second time changes nothing more; two statements are \<open>commuting\<close>
  when the state they leave does not depend on their order.
\<close>

definition state_free :: "'s stmt \<Rightarrow> bool" where
  "state_free st \<longleftrightarrow>
     (\<forall>s t. fst (st s) = fst (st t)) \<and> (\<forall>s. snd (st (snd (st s))) = snd (st s))"

definition commuting :: "'s stmt \<Rightarrow> 's stmt \<Rightarrow> bool" where
  "commuting a b \<longleftrightarrow> (\<forall>s. snd (a (snd (b s))) = snd (b (snd (a s))))"

section \<open>Statements that complete\<close>

lemma block_Cons_None:
  "block (st # rest) s = (None, s'') \<longleftrightarrow> (\<exists>s'. st s = (None, s') \<and> block rest s' = (None, s''))"
  by (auto split: prod.splits option.splits)

lemma block_Nil_None: "block [] s = (None, s') \<longleftrightarrow> s' = s"
  by auto

lemma assign_None: "assign rhs store s = (None, s') \<longleftrightarrow> (\<exists>v. rhs = Inr v \<and> s' = store v s)"
  by (auto simp: assign_def split: sum.splits)

lemma local_var_None:
  "local_var rhs body s = (None, s') \<longleftrightarrow> (\<exists>v. rhs = Inr v \<and> body v s = (None, s'))"
  by (auto simp: local_var_def split: sum.splits)

lemma response_json_Inr:
  "response_json out = Inr v \<longleftrightarrow> (\<exists>status. out = Response status (Some v))"
  by (cases out rule: response_json.cases) auto

lemma bind_value_Inr: "bind_value r f = Inr w \<longleftrightarrow> (\<exists>v. r = Inr v \<and> f v = Inr w)"
  by (cases r) auto

lemma map_value_Inr: "map_value f r = Inr w \<longleftrightarrow> (\<exists>v. r = Inr v \<and> w = f v)"
  by (auto simp: map_value_def bind_value_Inr)

lemma for_legends_None:
  "for_legends rt x s = (None, s') \<longleftrightarrow>
     (\<exists>items d. py_items x = Inr items \<and> legends_loop rt items (all_legends_kills s) = (None, d)
        \<and> s' = s\<lparr>all_legends_kills := d\<rparr>)"
  by (auto simp: for_legends_def split: sum.splits prod.splits)

lemmas completes =
  block_Cons_None block_Nil_None assign_None local_var_None bind_value_Inr map_value_Inr
  for_legends_None

section \<open>The requests\<close>

lemma map_populate_net:
  "snd (snd (MapDataCollector_populate_data self net)) = net\<lparr>sent := sent net @ [map_request self]\<rparr>"
  by (simp add: MapDataCollector_populate_data_def requests_get_json_def split: prod.splits)

lemma player_populate_net:
  "snd (snd (PlayerStatsCollector_populate_data rt self net)) =
     net\<lparr>sent := sent net @ [player_request self]\<rparr>"
  by (simp add: PlayerStatsCollector_populate_data_def requests_get_json_def split: prod.splits)

lemma map_populate_respond:
  assumes "respond net2 (map_request self) = respond net (map_request self)"
  shows "fst (MapDataCollector_populate_data self net2) = fst (MapDataCollector_populate_data self net)"
    and "fst (snd (MapDataCollector_populate_data self net2)) =
         fst (snd (MapDataCollector_populate_data self net))"
  using assms
  by (simp_all add: MapDataCollector_populate_data_def requests_get_json_def split: prod.splits)

lemma player_populate_respond:
  assumes "respond net2 (player_request self) = respond net (player_request self)"
  shows "fst (PlayerStatsCollector_populate_data rt self net2) =
         fst (PlayerStatsCollector_populate_data rt self net)"
    and "fst (snd (PlayerStatsCollector_populate_data rt self net2)) =
         fst (snd (PlayerStatsCollector_populate_data rt self net))"
  using assms
  by (simp_all add: PlayerStatsCollector_populate_data_def requests_get_json_def split: prod.splits)

section \<open>Running a block twice\<close>

lemma block_fst_indep:
  "\<forall>st\<in>set sts. \<forall>s t. fst (st s) = fst (st t) \<Longrightarrow> fst (block sts s) = fst (block sts t)"
proof (induction sts arbitrary: s t)
  case Nil
  then show ?case by simp
next
  case (Cons a sts)
  have "fst (a s) = fst (a t)" using Cons.prems by simp
  moreover have "fst (block sts (snd (a s))) = fst (block sts (snd (a t)))"
    using Cons by simp
  ultimately show ?case
    by (cases "a s"; cases "a t") (auto split: option.splits)
qed

lemma block_commuting:
  assumes "\<forall>b\<in>set sts. commuting a b" and "\<forall>b\<in>set sts. \<forall>s t. fst (b s) = fst (b t)"
  shows "snd (a (snd (block sts s))) = snd (block sts (snd (a s)))"
  using assms
proof (induction sts arbitrary: s)
  case Nil
  then show ?case by simp
next
  case (Cons b sts)
  have c: "snd (a (snd (b s))) = snd (b (snd (a s)))"
    using Cons.prems(1) by (simp add: commuting_def)
  have e: "fst (b (snd (a s))) = fst (b s)"
    using Cons.prems(2) by simp
  have ih: "snd (a (snd (block sts (snd (b s))))) = snd (block sts (snd (a (snd (b s)))))"
    using Cons by simp
  show ?case
    using c e ih by (cases "b s"; cases "b (snd (a s))") (auto split: option.splits)
qed

lemma block_idem:
  assumes "list_all state_free sts" and "sorted_wrt commuting sts"
  shows "block sts (snd (block sts s)) = block sts s"
  using assms
proof (induction sts arbitrary: s)
  case Nil
  then show ?case by simp
next
  case (Cons a sts)
  have fa: "\<And>t. fst (a t) = fst (a s)" and ia: "\<And>t. snd (a (snd (a t))) = snd (a t)"
    using Cons.prems(1) by (auto simp: state_free_def)
  have ind: "\<forall>b\<in>set sts. \<forall>s t. fst (b s) = fst (b t)"
    using Cons.prems(1) by (auto simp: state_free_def list_all_iff)
  have com: "\<forall>b\<in>set sts. commuting a b"
    using Cons.prems(2) by simp
  have ih: "\<And>t. block sts (snd (block sts t)) = block sts t"
    using Cons by simp
  show ?case
  proof (cases "fst (a s)")
    case (Some e)
    then have "block (a # sts) s = (Some e, snd (a s))"
      by (cases "a s") auto
    moreover have "a (snd (a s)) = (Some e, snd (a s))"
      using fa[of "snd (a s)"] ia[of s] Some by (cases "a (snd (a s))") auto
    ultimately show ?thesis by simp
  next
    case None
    define s' where "s' = snd (a s)"
    have as: "a s = (None, s')" using None s'_def by (cases "a s") auto
    have as': "a s' = (None, s')"
      using fa[of s'] ia[of s] None s'_def by (cases "a s'") auto
    define s1 where "s1 = snd (block sts s')"
    have "snd (a s1) = snd (block sts (snd (a s')))"
      unfolding s1_def using block_commuting[OF com ind] by simp
    then have "snd (a s1) = s1" using as' s1_def by simp
    then have as1: "a s1 = (None, s1)"
      using fa[of s1] None by (cases "a s1") auto
    have "block (a # sts) s = block sts s'" using as by simp
    moreover have "block (a # sts) (snd (block sts s')) = block sts s'"
      using as1 ih[of s'] s1_def by simp
    ultimately show ?thesis by simp
  qed
qed

lemma block_preserves:
  "\<forall>st\<in>set sts. \<forall>s. g (snd (st s)) = g s \<Longrightarrow> g (snd (block sts s)) = g s"
proof (induction sts arbitrary: s)
  case Nil
  then show ?case by simp
next
  case (Cons a sts)
  have "g (snd (a s)) = g s" using Cons.prems by simp
  moreover have "g (snd (block sts (snd (a s)))) = g (snd (a s))" using Cons by simp
  ultimately show ?case by (cases "a s") (auto split: option.splits)
qed

lemma local_var_fst_indep:
  "(\<And>v. fst (body v s) = fst (body v t)) \<Longrightarrow> fst (local_var r body s) = fst (local_var r body t)"
  by (cases r) (simp_all add: local_var_def)

lemma local_var_idem:
  "(\<And>v. body v (snd (body v s)) = body v s) \<Longrightarrow>
   local_var r body (snd (local_var r body s)) = local_var r body s"
  by (cases r) (simp_all add: local_var_def)

lemma local_var_preserves:
  "(\<And>v. g (snd (body v s)) = g s) \<Longrightarrow> g (snd (local_var r body s)) = g s"
  by (cases r) (simp_all add: local_var_def)

lemma assign_fst: "fst (assign rhs store s) = (case rhs of Inl e \<Rightarrow> Some e | Inr v \<Rightarrow> None)"
  by (simp add: assign_def split: sum.splits)

lemma assign_snd: "snd (assign rhs store s) = (case rhs of Inl e \<Rightarrow> s | Inr v \<Rightarrow> store v s)"
  by (simp add: assign_def split: sum.splits)

lemma state_free_assign:
  "(\<And>v s. store v (store v s) = store v s) \<Longrightarrow> state_free (assign rhs store)"
  by (auto simp: state_free_def assign_def split: sum.splits)

lemma commuting_assign:
  "(\<And>v w s. f v (g w s) = g w (f v s)) \<Longrightarrow> commuting (assign r1 f) (assign r2 g)"
  by (auto simp: commuting_def assign_def split: sum.splits)

section \<open>The loop over the legends\<close>

lemma legends_loop_fst:
  "fst (legends_loop rt items d) = fst (legends_loop rt items d')"
proof (induction items arbitrary: d d')
  case Nil
  show ?case by simp
next
  case (Cons item items)
  obtain legend_name legend_info where item: "item = (legend_name, legend_info)"
    by (cases item)
  have same: "fst (legends_loop rt items d) = fst (legends_loop rt items d')"
    by (rule Cons.IH)
  have updated: "\<And>v. fst (legends_loop rt items (AList.update legend_name v d)) =
                     fst (legends_loop rt items (AList.update legend_name v d'))"
    by (rule Cons.IH)
  show ?case
    by (simp add: item same updated split: sum.splits)
qed

lemma all_legends_block:
  "block [assign (Inr []) (\<lambda>v s. s\<lparr>all_legends_kills := v\<rparr>), for_legends rt x] s =
     (case py_items x of
        Inl e \<Rightarrow> (Some e, s\<lparr>all_legends_kills := []\<rparr>)
      | Inr items \<Rightarrow> (fst (legends_loop rt items []),
                       s\<lparr>all_legends_kills := snd (legends_loop rt items [])\<rparr>))"
  by (simp add: assign_def for_legends_def split: sum.splits prod.splits option.splits)

lemma state_free_all_legends:
  "state_free (block [assign (Inr []) (\<lambda>v s. s\<lparr>all_legends_kills := v\<rparr>), for_legends rt x])"
  unfolding state_free_def all_legends_block by (simp split: sum.splits)

lemma commuting_all_legends_assign:
  "(\<And>v d s. f v (s\<lparr>all_legends_kills := d\<rparr>) = (f v s)\<lparr>all_legends_kills := d\<rparr>) \<Longrightarrow>
   commuting (block [assign (Inr []) (\<lambda>v s. s\<lparr>all_legends_kills := v\<rparr>), for_legends rt x])
     (assign r f)"
  unfolding commuting_def all_legends_block by (simp add: assign_snd split: sum.splits)

lemma commuting_assign_all_legends:
  "(\<And>v d s. f v (s\<lparr>all_legends_kills := d\<rparr>) = (f v s)\<lparr>all_legends_kills := d\<rparr>) \<Longrightarrow>
   commuting (assign r f)
     (block [assign (Inr []) (\<lambda>v s. s\<lparr>all_legends_kills := v\<rparr>), for_legends rt x])"
  unfolding commuting_def all_legends_block by (simp add: assign_snd split: sum.splits)

lemmas state_frees = state_free_assign state_free_all_legends
lemmas commutings = commuting_assign commuting_all_legends_assign commuting_assign_all_legends

section \<open>The fields of the two collectors\<close>

lemma populate_map_fields_error:
  "fst (populate_map_fields r s) = fst (populate_map_fields r t)"
  unfolding populate_map_fields_def
  by (intro local_var_fst_indep block_fst_indep) (simp add: assign_fst)

lemma populate_map_fields_idem:
  "populate_map_fields r (snd (populate_map_fields r s)) = populate_map_fields r s"
  unfolding populate_map_fields_def
  by (intro local_var_idem block_idem) (simp_all add: state_frees commutings del: block.simps)

lemma populate_map_fields_request:
  "map_request (snd (populate_map_fields r s)) = map_request s"
  unfolding populate_map_fields_def
  by (intro local_var_preserves block_preserves) (simp add: assign_snd map_request_def split: sum.splits)

lemma populate_player_fields_error:
  "fst (populate_player_fields rt r s) = fst (populate_player_fields rt r t)"
  unfolding populate_player_fields_def
  by (intro local_var_fst_indep block_fst_indep)
     (simp add: assign_fst all_legends_block del: block.simps split: sum.splits)

lemma populate_player_fields_idem:
  "populate_player_fields rt r (snd (populate_player_fields rt r s)) = populate_player_fields rt r s"
  unfolding populate_player_fields_def
  by (intro local_var_idem block_idem) (simp_all add: state_frees commutings del: block.simps)

lemma populate_player_fields_request:
  "player_request (snd (populate_player_fields rt r s)) = player_request s"
  unfolding populate_player_fields_def
  by (intro local_var_preserves block_preserves)
     (simp add: assign_snd all_legends_block player_request_def del: block.simps split: sum.splits)


lemma legends_loop_distinct:
  "distinct (map fst d) \<Longrightarrow> distinct (map fst (snd (legends_loop rt items d)))"
proof (induction items arbitrary: d)
  case Nil
  then show ?case by simp
next
  case (Cons item items)
  obtain legend_name legend_info where item: "item = (legend_name, legend_info)"
    by (cases item)
  have same: "distinct (map fst (snd (legends_loop rt items d)))"
    using Cons by simp
  have updated: "\<And>v. distinct (map fst (snd (legends_loop rt items (AList.update legend_name v d))))"
    using Cons by (simp add: distinct_update)
  show ?case
    using Cons.prems by (simp add: item same updated split: sum.splits)
qed

lemma populate_player_fields_distinct:
  "populate_player_fields rt r s = (None, s') \<Longrightarrow> distinct (map fst (all_legends_kills s'))"
  unfolding populate_player_fields_def
  using legends_loop_distinct [of "[]" rt]
  by (auto simp: completes simp del: block.simps dest!: arg_cong [where f = snd])

section \<open>The instruments\<close>

lemma set_legend_kills_fst:
  "fst (set_legend_kills rt kvs c) = fst (set_legend_kills rt kvs c')"
proof (induction kvs arbitrary: c c')
  case Nil
  show ?case by simp
next
  case (Cons kv kvs)
  obtain k v where kv: "kv = (k, v)" by (cases kv)
  have updated: "\<And>f. fst (set_legend_kills rt kvs (AList.update k f c)) =
                     fst (set_legend_kills rt kvs (AList.update k f c'))"
    by (rule Cons.IH)
  show ?case by (simp add: kv updated split: sum.splits)
qed

lemma set_legend_kills_other:
  "k \<notin> fst ` set kvs \<Longrightarrow> map_of (snd (set_legend_kills rt kvs c)) k = map_of c k"
proof (induction kvs arbitrary: c)
  case Nil
  show ?case by simp
next
  case (Cons kv kvs)
  obtain k' v where kv: "kv = (k', v)" by (cases kv)
  have neq: "k' \<noteq> k" and rest: "k \<notin> fst ` set kvs" using Cons.prems kv by auto
  have updated: "\<And>f. map_of (snd (set_legend_kills rt kvs (AList.update k' f c))) k = map_of c k"
    using Cons.IH [OF rest] neq by (simp add: update_conv')
  show ?case by (simp add: kv updated split: sum.splits)
qed

lemma set_legend_kills_idem:
  "distinct (map fst kvs) \<Longrightarrow>
   set_legend_kills rt kvs (snd (set_legend_kills rt kvs c)) = set_legend_kills rt kvs c"
proof (induction kvs arbitrary: c)
  case Nil
  show ?case by simp
next
  case (Cons kv kvs)
  obtain k v where kv: "kv = (k, v)" by (cases kv)
  have fresh: "k \<notin> fst ` set kvs" and dist: "distinct (map fst kvs)"
    using Cons.prems kv by auto
  show ?case
  proof (cases "py_float rt v")
    case (Inl e)
    then show ?thesis by (simp add: kv)
  next
    case (Inr f)
    define c' where "c' = snd (set_legend_kills rt kvs (AList.update k f c))"
    have "map_of c' k = Some f"
      unfolding c'_def using set_legend_kills_other [OF fresh] by (simp add: update_conv')
    then have "AList.update k f c' = c'" by (rule update_triv)
    moreover have "set_legend_kills rt kvs c' = set_legend_kills rt kvs (AList.update k f c)"
      unfolding c'_def by (rule Cons.IH [OF dist])
    ultimately show ?thesis by (simp add: kv Inr c'_def)
  qed
qed

lemma for_legend_kills_fst:
  "fst (for_legend_kills rt kvs s) = fst (set_legend_kills rt kvs [])"
  using set_legend_kills_fst [of rt kvs "metric_legend_kills s" "[]"]
  by (cases "set_legend_kills rt kvs (metric_legend_kills s)") (simp add: for_legend_kills_def)

lemma for_legend_kills_snd:
  "snd (for_legend_kills rt kvs s) =
     s\<lparr>metric_legend_kills := snd (set_legend_kills rt kvs (metric_legend_kills s))\<rparr>"
  by (cases "set_legend_kills rt kvs (metric_legend_kills s)") (simp add: for_legend_kills_def)

lemma state_free_for_legend_kills:
  "distinct (map fst kvs) \<Longrightarrow> state_free (for_legend_kills rt kvs)"
  by (simp add: state_free_def for_legend_kills_fst for_legend_kills_snd set_legend_kills_idem)

lemma commuting_for_legend_kills_assign:
  "(\<And>v d s. f v (s\<lparr>metric_legend_kills := d\<rparr>) = (f v s)\<lparr>metric_legend_kills := d\<rparr>) \<Longrightarrow>
   (\<And>v s. metric_legend_kills (f v s) = metric_legend_kills s) \<Longrightarrow>
   commuting (for_legend_kills rt kvs) (assign r f)"
  by (simp add: commuting_def for_legend_kills_snd assign_snd split: sum.splits)

lemma commuting_assign_for_legend_kills:
  "(\<And>v d s. f v (s\<lparr>metric_legend_kills := d\<rparr>) = (f v s)\<lparr>metric_legend_kills := d\<rparr>) \<Longrightarrow>
   (\<And>v s. metric_legend_kills (f v s) = metric_legend_kills s) \<Longrightarrow>
   commuting (assign r f) (for_legend_kills rt kvs)"
  by (simp add: commuting_def for_legend_kills_snd assign_snd split: sum.splits)


lemmas instrument_state_frees = state_free_assign state_free_for_legend_kills
lemmas instrument_commutings =
  commuting_assign commuting_for_legend_kills_assign commuting_assign_for_legend_kills

lemma project_idem:
  "distinct (map fst (all_legends_kills p)) \<Longrightarrow>
   project rt p m (snd (project rt p m s)) = project rt p m s"
  unfolding project_def gauge_set_def info_set_def
  by (intro block_idem)
     (simp_all add: instrument_state_frees instrument_commutings del: block.simps)

lemma project_collectors:
  "player_stats_collector (snd (project rt p m s)) = player_stats_collector s"
  "map_stats_collector (snd (project rt p m s)) = map_stats_collector s"
  unfolding project_def gauge_set_def info_set_def
  by (intro block_preserves,
      simp add: assign_snd for_legend_kills_snd del: block.simps split: sum.splits)+

section \<open>The map-rotation fetch\<close>

text \<open>
  Claim C4. For a map-rotation document of the documented shape (an object whose members
  \<open>current\<close> and \<open>next\<close> are objects with the members read below), whatever the status of
  the response, \<open>MapDataCollector.populate_data\<close> returns normally and the six fields of
  the collector are the corresponding members of the document: \<open>current.map\<close>,
  \<open>current.DurationInMinutes\<close>, \<open>current.remainingMins\<close>, \<open>next.map\<close>, \<open>next.start\<close>,
  \<open>next.DurationInMinutes\<close>. One request is sent.
\<close>

theorem map_fetch_projection:
  assumes "respond net (map_request self) = Response status (Some map_rotation)"
    and "getitem map_rotation ''current'' = Inr current"
    and "getitem map_rotation ''next'' = Inr nxt"
    and "getitem current ''map'' = Inr cm"
    and "getitem current ''DurationInMinutes'' = Inr cd"
    and "getitem current ''remainingMins'' = Inr cr"
    and "getitem nxt ''map'' = Inr nm"
    and "getitem nxt ''start'' = Inr ns"
    and "getitem nxt ''DurationInMinutes'' = Inr nd"
  shows "MapDataCollector_populate_data self net =
           (None,
            self\<lparr>current_map_name := cm, current_map_duration := cd, current_map_remaining := cr,
                 next_map_name := nm, next_map_start := ns, next_map_duration := nd\<rparr>,
            net\<lparr>sent := sent net @ [map_request self]\<rparr>)"
  using assms
  by (simp add: MapDataCollector_populate_data_def populate_map_fields_def requests_get_json_def
      local_var_def assign_def)

text \<open>The document of the end-to-end scenario.\<close>

lemma example_map_request:
  "respond example_upstream (map_request example_map) = Response 200 (Some example_map_rotation)"
  by (simp add: example_upstream_def upstream_def map_request_def MapDataCollector_URL_def
      PlayerStatsCollector_URL_def)

theorem map_fetch_projection_witness:
  "MapDataCollector_populate_data example_map example_upstream =
     (None,
      example_map\<lparr>current_map_name := PStr ''Kings Canyon'', current_map_duration := PInt 45,
                  current_map_remaining := PInt 10,
                  next_map_name := PStr (''World'' @ [CHR 0x27] @ ''s Edge''),
                  next_map_start := PInt 1700000000, next_map_duration := PInt 45\<rparr>,
      example_upstream\<lparr>sent := sent example_upstream @ [map_request example_map]\<rparr>)"
proof -
  let ?current = "PDict [(''map'', PStr ''Kings Canyon''), (''DurationInMinutes'', PInt 45),
                         (''remainingMins'', PInt 10)] :: rat pyval"
  let ?next = "PDict [(''map'', PStr (''World'' @ [CHR 0x27] @ ''s Edge'')),
                      (''DurationInMinutes'', PInt 45), (''start'', PInt 1700000000)] :: rat pyval"
  have "getitem example_map_rotation ''current'' = Inr ?current"
    and "getitem example_map_rotation ''next'' = Inr ?next"
    by (simp_all add: example_map_rotation_def)
  moreover have "getitem ?current ''map'' = Inr (PStr ''Kings Canyon'')"
    and "getitem ?current ''DurationInMinutes'' = Inr (PInt 45)"
    and "getitem ?current ''remainingMins'' = Inr (PInt 10)"
    and "getitem ?next ''map'' = Inr (PStr (''World'' @ [CHR 0x27] @ ''s Edge''))"
    and "getitem ?next ''start'' = Inr (PInt 1700000000)"
    and "getitem ?next ''DurationInMinutes'' = Inr (PInt 45)"
    by simp_all
  ultimately show ?thesis
    by (rule map_fetch_projection [OF example_map_request])
qed

section \<open>The player-statistics request\<close>

text \<open>
  Claim C9. \<open>PlayerStatsCollector.populate_data\<close> sends exactly one request, to the bridge
  endpoint. When a player name is configured (\<open>self.player_name\<close> is true: set and not
  empty) its parameters are \<open>player_name\<close> and \<open>platform\<close>, otherwise \<open>uid\<close> and \<open>platform\<close>;
  a request by name carries no \<open>uid\<close> parameter.
\<close>

theorem player_request_parameters:
  "\<exists>req. sent (snd (snd (PlayerStatsCollector_populate_data rt self net))) = sent net @ [req]
     \<and> req_url req = PlayerStatsCollector_URL
     \<and> req_params req =
         (if str_set (player_name self)
          then [(''player_name'', player_name self), (''platform'', platform self)]
          else [(''uid'', uid self), (''platform'', platform self)])
     \<and> (str_set (player_name self) \<longrightarrow> ''uid'' \<notin> fst ` set (req_params req))"
  by (simp add: player_populate_net player_request_def)

theorem player_request_parameters_witness:
  "str_set (player_name example_player) \<and>
   (\<exists>req. sent (snd (snd (PlayerStatsCollector_populate_data example_runtime example_player
                            example_upstream))) = [req]
      \<and> req_params req = [(''player_name'', Some ''Heartbreaker''), (''platform'', Some ''PC'')])"
proof -
  have n: "player_name example_player = Some ''Heartbreaker''"
    and p: "platform example_player = Some ''PC''"
    by (simp_all add: example_player_def PlayerStatsCollector_init_def)
  have e: "sent example_upstream = []"
    by (simp add: example_upstream_def upstream_def)
  show ?thesis
    using player_request_parameters [of example_runtime example_player example_upstream]
    by (auto simp: n p e)
qed

section \<open>The steps of \<open>collect\<close>\<close>

lemma collect_player_failed:
  assumes "fst (PlayerStatsCollector_populate_data rt (player_stats_collector self) net) = Some e"
  shows "ApexCollector_collect rt self net =
           (Some e,
            self\<lparr>player_stats_collector :=
                   fst (snd (PlayerStatsCollector_populate_data rt (player_stats_collector self) net))\<rparr>,
            net\<lparr>sent := sent net @ [player_request (player_stats_collector self)]\<rparr>)"
  using assms player_populate_net [of rt "player_stats_collector self" net]
  by (cases "PlayerStatsCollector_populate_data rt (player_stats_collector self) net")
     (auto simp: ApexCollector_collect_def)

lemma map_populate_after_player:
  "fst (MapDataCollector_populate_data m (net\<lparr>sent := xs\<rparr>)) = fst (MapDataCollector_populate_data m net)"
  "fst (snd (MapDataCollector_populate_data m (net\<lparr>sent := xs\<rparr>))) =
     fst (snd (MapDataCollector_populate_data m net))"
  by (rule map_populate_respond, simp)+

lemma collect_map_failed:
  assumes "fst (PlayerStatsCollector_populate_data rt (player_stats_collector self) net) = None"
    and "fst (MapDataCollector_populate_data (map_stats_collector self) net) = Some e"
  shows "ApexCollector_collect rt self net =
           (Some e,
            self\<lparr>player_stats_collector :=
                   fst (snd (PlayerStatsCollector_populate_data rt (player_stats_collector self) net)),
                 map_stats_collector :=
                   fst (snd (MapDataCollector_populate_data (map_stats_collector self) net))\<rparr>,
            net\<lparr>sent := sent net @ [player_request (player_stats_collector self),
                                      map_request (map_stats_collector self)]\<rparr>)"
proof -
  define net1 where "net1 = net\<lparr>sent := sent net @ [player_request (player_stats_collector self)]\<rparr>"
  obtain p where p: "PlayerStatsCollector_populate_data rt (player_stats_collector self) net = (None, p, net1)"
    using assms(1) player_populate_net [of rt "player_stats_collector self" net]
    by (cases "PlayerStatsCollector_populate_data rt (player_stats_collector self) net")
       (auto simp: net1_def)
  have "fst (MapDataCollector_populate_data (map_stats_collector self) net1) = Some e"
    and m1: "fst (snd (MapDataCollector_populate_data (map_stats_collector self) net1)) =
         fst (snd (MapDataCollector_populate_data (map_stats_collector self) net))"
    using assms(2) by (simp_all add: net1_def map_populate_after_player)
  then obtain m where m: "MapDataCollector_populate_data (map_stats_collector self) net1 =
      (Some e, m, net1\<lparr>sent := sent net1 @ [map_request (map_stats_collector self)]\<rparr>)"
    using map_populate_net [of "map_stats_collector self" net1]
    by (cases "MapDataCollector_populate_data (map_stats_collector self) net1") auto
  show ?thesis
    using p m m1 by (simp add: ApexCollector_collect_def net1_def)
qed

lemma collect_projects:
  assumes "fst (PlayerStatsCollector_populate_data rt (player_stats_collector self) net) = None"
    and "fst (MapDataCollector_populate_data (map_stats_collector self) net) = None"
  shows "ApexCollector_collect rt self net =
           (fst (project rt
                   (fst (snd (PlayerStatsCollector_populate_data rt (player_stats_collector self) net)))
                   (fst (snd (MapDataCollector_populate_data (map_stats_collector self) net)))
                   (self\<lparr>player_stats_collector :=
                      fst (snd (PlayerStatsCollector_populate_data rt (player_stats_collector self) net)),
                    map_stats_collector :=
                      fst (snd (MapDataCollector_populate_data (map_stats_collector self) net))\<rparr>)),
            snd (project rt
                   (fst (snd (PlayerStatsCollector_populate_data rt (player_stats_collector self) net)))
                   (fst (snd (MapDataCollector_populate_data (map_stats_collector self) net)))
                   (self\<lparr>player_stats_collector :=
                      fst (snd (PlayerStatsCollector_populate_data rt (player_stats_collector self) net)),
                    map_stats_collector :=
                      fst (snd (MapDataCollector_populate_data (map_stats_collector self) net))\<rparr>)),
            net\<lparr>sent := sent net @ [player_request (player_stats_collector self),
                                      map_request (map_stats_collector self)]\<rparr>)"
proof -
  define net1 where "net1 = net\<lparr>sent := sent net @ [player_request (player_stats_collector self)]\<rparr>"
  obtain p where p: "PlayerStatsCollector_populate_data rt (player_stats_collector self) net = (None, p, net1)"
    using assms(1) player_populate_net [of rt "player_stats_collector self" net]
    by (cases "PlayerStatsCollector_populate_data rt (player_stats_collector self) net")
       (auto simp: net1_def)
  have "fst (MapDataCollector_populate_data (map_stats_collector self) net1) = None"
    and m1: "fst (snd (MapDataCollector_populate_data (map_stats_collector self) net1)) =
         fst (snd (MapDataCollector_populate_data (map_stats_collector self) net))"
    using assms(2) by (simp_all add: net1_def map_populate_after_player)
  then obtain m where m: "MapDataCollector_populate_data (map_stats_collector self) net1 =
      (None, m, net1\<lparr>sent := sent net1 @ [map_request (map_stats_collector self)]\<rparr>)"
    using map_populate_net [of "map_stats_collector self" net1]
    by (cases "MapDataCollector_populate_data (map_stats_collector self) net1") auto
  show ?thesis
    using p m m1 by (simp add: ApexCollector_collect_def net1_def split: prod.splits)
qed

lemma instruments_collectors:
  "instruments (self\<lparr>player_stats_collector := p\<rparr>) = instruments self"
  "instruments (self\<lparr>map_stats_collector := m\<rparr>) = instruments self"
  by (simp_all add: instruments_def)


lemma collect_sent:
  "sent (snd (snd (ApexCollector_collect rt self net))) =
     sent net @
       (if fst (PlayerStatsCollector_populate_data rt (player_stats_collector self) net) \<noteq> None
        then [player_request (player_stats_collector self)]
        else [player_request (player_stats_collector self), map_request (map_stats_collector self)])"
proof (cases "fst (PlayerStatsCollector_populate_data rt (player_stats_collector self) net)")
  case (Some e)
  then show ?thesis by (simp add: collect_player_failed)
next
  case None
  show ?thesis
  proof (cases "fst (MapDataCollector_populate_data (map_stats_collector self) net)")
    case (Some e)
    with None show ?thesis by (simp add: collect_map_failed)
  next
    case None': None
    with None show ?thesis by (simp add: collect_projects)
  qed
qed

lemma collect_fetch_failed:
  assumes "fst (PlayerStatsCollector_populate_data rt (player_stats_collector self) net) \<noteq> None
           \<or> fst (MapDataCollector_populate_data (map_stats_collector self) net) \<noteq> None"
  shows "fst (ApexCollector_collect rt self net) \<noteq> None"
    and "instruments (fst (snd (ApexCollector_collect rt self net))) = instruments self"
proof -
  have "fst (ApexCollector_collect rt self net) \<noteq> None
        \<and> instruments (fst (snd (ApexCollector_collect rt self net))) = instruments self"
  proof (cases "fst (PlayerStatsCollector_populate_data rt (player_stats_collector self) net)")
    case (Some e)
    then show ?thesis by (simp add: collect_player_failed instruments_def)
  next
    case None
    then obtain e where "fst (MapDataCollector_populate_data (map_stats_collector self) net) = Some e"
      using assms by auto
    with None show ?thesis by (simp add: collect_map_failed instruments_def)
  qed
  then show "fst (ApexCollector_collect rt self net) \<noteq> None"
    and "instruments (fst (snd (ApexCollector_collect rt self net))) = instruments self"
    by simp_all
qed

text \<open>
  Claim C3. When the player-statistics fetch or the map-rotation fetch of a call of
  \<open>collect\<close> raises, the call raises and every instrument holds the value it held before
  the call: the instruments are written only after both fetches have returned.
\<close>

theorem fetch_failure_keeps_instruments:
  assumes "fst (PlayerStatsCollector_populate_data rt (player_stats_collector self) net) \<noteq> None
           \<or> fst (MapDataCollector_populate_data (map_stats_collector self) net) \<noteq> None"
  shows "fst (ApexCollector_collect rt self net) \<noteq> None
         \<and> instruments (fst (snd (ApexCollector_collect rt self net))) = instruments self"
  using collect_fetch_failed [OF assms] by simp

lemma example_player_fetch:
  "fst (PlayerStatsCollector_populate_data example_runtime example_player
          (upstream (Response 200 (Some example_player_stats)) map_outcome)) = None"
  by (simp add: PlayerStatsCollector_populate_data_def populate_player_fields_def example_player_def
      upstream_def requests_get_json_def player_request_def PlayerStatsCollector_URL_def
      PlayerStatsCollector_init_def example_player_stats_def player_stats_document_def example_all_legends_def local_var_def
      assign_def for_legends_def kill_value_of_def py_eq_str_def map_value_def py_or_def
      example_runtime_def)

lemma example_map_fetch_failed:
  "fst (MapDataCollector_populate_data example_map (upstream player_outcome ConnectionFailed)) =
     Some RequestException"
  by (simp add: MapDataCollector_populate_data_def populate_map_fields_def example_map_def
      upstream_def requests_get_json_def map_request_def PlayerStatsCollector_URL_def
      MapDataCollector_URL_def MapDataCollector_init_def local_var_def)

lemma example_collector_parts:
  "player_stats_collector example_collector = example_player"
  "map_stats_collector example_collector = example_map"
  by (simp_all add: example_collector_def ApexCollector_init_def)

theorem fetch_failure_keeps_instruments_witness:
  "fst (MapDataCollector_populate_data (map_stats_collector example_collector)
          (upstream (Response 200 (Some example_player_stats)) ConnectionFailed)) \<noteq> None
   \<and> fst (ApexCollector_collect example_runtime example_collector
            (upstream (Response 200 (Some example_player_stats)) ConnectionFailed)) \<noteq> None
   \<and> instruments (fst (snd (ApexCollector_collect example_runtime example_collector
                               (upstream (Response 200 (Some example_player_stats)) ConnectionFailed))))
       = instruments example_collector"
proof -
  have failed: "fst (MapDataCollector_populate_data (map_stats_collector example_collector)
          (upstream (Response 200 (Some example_player_stats)) ConnectionFailed)) \<noteq> None"
    by (simp add: example_collector_parts example_map_fetch_failed)
  then have "fst (PlayerStatsCollector_populate_data example_runtime
                    (player_stats_collector example_collector)
                    (upstream (Response 200 (Some example_player_stats)) ConnectionFailed)) \<noteq> None
        \<or> fst (MapDataCollector_populate_data (map_stats_collector example_collector)
          (upstream (Response 200 (Some example_player_stats)) ConnectionFailed)) \<noteq> None"
    by simp
  from fetch_failure_keeps_instruments [OF this] failed show ?thesis by simp
qed

text \<open>
  Claim C7, as the code has it. Within a call of \<open>collect\<close> the player statistics are
  requested first and the map rotation second (the second request is made only when the
  first fetch has returned), and an instrument changes only when both fetches have
  returned. The claim's order, map rotation before player statistics, fails on the
  example: the bridge endpoint is requested before the map-rotation endpoint.
\<close>

theorem collect_order:
  "sent (snd (snd (ApexCollector_collect rt self net))) =
     sent net @
       (if fst (PlayerStatsCollector_populate_data rt (player_stats_collector self) net) \<noteq> None
        then [player_request (player_stats_collector self)]
        else [player_request (player_stats_collector self), map_request (map_stats_collector self)])
   \<and> (instruments (fst (snd (ApexCollector_collect rt self net))) \<noteq> instruments self \<longrightarrow>
        fst (PlayerStatsCollector_populate_data rt (player_stats_collector self) net) = None
        \<and> fst (MapDataCollector_populate_data (map_stats_collector self) net) = None)"
  using collect_sent [of rt self net] collect_fetch_failed(2) [of rt self net] by blast

lemma example_map_fetch:
  "fst (MapDataCollector_populate_data example_map
          (upstream player_outcome (Response 200 (Some example_map_rotation)))) = None"
  by (simp add: MapDataCollector_populate_data_def populate_map_fields_def example_map_def
      upstream_def requests_get_json_def map_request_def PlayerStatsCollector_URL_def
      MapDataCollector_URL_def MapDataCollector_init_def local_var_def assign_def
      example_map_rotation_def)

lemma example_requests:
  "req_url (player_request example_player) = ''https://api.mozambiquehe.re/bridge''"
  "req_url (map_request example_map) = ''https://api.mozambiquehe.re/maprotation''"
  by (simp_all add: player_request_def map_request_def PlayerStatsCollector_URL_def
      MapDataCollector_URL_def)

theorem collect_order_counterexample:
  "map req_url (sent (snd (snd (ApexCollector_collect example_runtime example_collector
                                  example_upstream)))) =
     [''https://api.mozambiquehe.re/bridge'', ''https://api.mozambiquehe.re/maprotation'']"
  using example_player_fetch [of "Response 200 (Some example_map_rotation)"]
  by (simp add: collect_sent example_collector_parts example_upstream_def example_requests)
     (simp add: upstream_def)

lemmas example_defs =
  example_collector_def example_player_def example_map_def example_upstream_def upstream_def
  example_runtime_def example_player_stats_def player_stats_document_def example_all_legends_def example_map_rotation_def
  ApexCollector_init_def PlayerStatsCollector_init_def MapDataCollector_init_def

lemmas program_defs =
  ApexCollector_collect_def project_def gauge_set_def info_set_def for_legend_kills_def
  PlayerStatsCollector_populate_data_def populate_player_fields_def player_request_def
  PlayerStatsCollector_URL_def for_legends_def kill_value_of_def
  MapDataCollector_populate_data_def populate_map_fields_def map_request_def MapDataCollector_URL_def
  requests_get_json_def local_var_def assign_def map_value_def py_or_def py_eq_str_def
  py_int_of_bool_def

lemma example_collect:
  "fst (ApexCollector_collect example_runtime example_collector example_upstream) = None"
  "metric_level (fst (snd (ApexCollector_collect example_runtime example_collector
          example_upstream))) = 120"
  "metric_active_legend_kills (fst (snd (ApexCollector_collect example_runtime example_collector
          example_upstream))) = 7"
  "metric_legend_kills (fst (snd (ApexCollector_collect example_runtime example_collector
          example_upstream))) = [(''Wraith'', 12)]"
  by (simp_all add: example_defs program_defs)

theorem collect_order_witness:
  "instruments (fst (snd (ApexCollector_collect example_runtime example_collector example_upstream)))
     \<noteq> instruments example_collector
   \<and> fst (PlayerStatsCollector_populate_data example_runtime
            (player_stats_collector example_collector) example_upstream) = None
   \<and> fst (MapDataCollector_populate_data (map_stats_collector example_collector)
            example_upstream) = None
   \<and> map req_url (sent (snd (snd (ApexCollector_collect example_runtime example_collector
                                      example_upstream)))) =
     [''https://api.mozambiquehe.re/bridge'', ''https://api.mozambiquehe.re/maprotation'']"
proof -
  have p: "fst (PlayerStatsCollector_populate_data example_runtime
            (player_stats_collector example_collector) example_upstream) = None"
    by (simp add: example_collector_parts example_upstream_def example_player_fetch)
  have m: "fst (MapDataCollector_populate_data (map_stats_collector example_collector)
            example_upstream) = None"
    by (simp add: example_collector_parts example_upstream_def example_map_fetch)
  have "sent example_upstream = []"
    by (simp add: example_upstream_def upstream_def)
  with collect_order [of example_runtime example_collector example_upstream] p m
  have s: "map req_url (sent (snd (snd (ApexCollector_collect example_runtime example_collector
                                      example_upstream)))) =
     [''https://api.mozambiquehe.re/bridge'', ''https://api.mozambiquehe.re/maprotation'']"
    by (simp add: example_collector_parts example_requests)
  have "metric_level (fst (snd (ApexCollector_collect example_runtime example_collector
          example_upstream))) = 120"
    by (simp add: example_collect)
  then have "instruments (fst (snd (ApexCollector_collect example_runtime example_collector example_upstream)))
     \<noteq> instruments example_collector"
    by (auto simp: instruments_def example_collector_def ApexCollector_init_def example_runtime_def)
  with p m s show ?thesis by simp
qed


section \<open>Two calls with the same upstream\<close>

lemma player_populate_idem:
  assumes "respond net2 (player_request p) = respond net (player_request p)"
  shows "fst (PlayerStatsCollector_populate_data rt
                (fst (snd (PlayerStatsCollector_populate_data rt p net))) net2) =
           fst (PlayerStatsCollector_populate_data rt p net)"
    and "fst (snd (PlayerStatsCollector_populate_data rt
                (fst (snd (PlayerStatsCollector_populate_data rt p net))) net2)) =
           fst (snd (PlayerStatsCollector_populate_data rt p net))"
proof -
  define r where "r = response_json (respond net (player_request p))"
  define p' where "p' = snd (populate_player_fields rt r p)"
  have first: "PlayerStatsCollector_populate_data rt p net =
      (fst (populate_player_fields rt r p), p', net\<lparr>sent := sent net @ [player_request p]\<rparr>)"
    by (simp add: PlayerStatsCollector_populate_data_def requests_get_json_def r_def p'_def
        split: prod.splits)
  have req: "player_request p' = player_request p"
    unfolding p'_def by (rule populate_player_fields_request)
  have again: "populate_player_fields rt r p' = populate_player_fields rt r p"
    unfolding p'_def by (rule populate_player_fields_idem)
  have resp: "response_json (respond net2 (player_request p)) = r"
    using assms by (simp add: r_def)
  have second: "PlayerStatsCollector_populate_data rt p' net2 =
      (fst (populate_player_fields rt r p), p', net2\<lparr>sent := sent net2 @ [player_request p]\<rparr>)"
    by (simp add: PlayerStatsCollector_populate_data_def requests_get_json_def req resp again
        case_prod_beta p'_def [symmetric])
  show "fst (PlayerStatsCollector_populate_data rt
                (fst (snd (PlayerStatsCollector_populate_data rt p net))) net2) =
           fst (PlayerStatsCollector_populate_data rt p net)"
    and "fst (snd (PlayerStatsCollector_populate_data rt
                (fst (snd (PlayerStatsCollector_populate_data rt p net))) net2)) =
           fst (snd (PlayerStatsCollector_populate_data rt p net))"
    by (simp_all add: first second)
qed

lemma map_populate_idem:
  assumes "respond net2 (map_request m) = respond net (map_request m)"
  shows "fst (MapDataCollector_populate_data
                (fst (snd (MapDataCollector_populate_data m net))) net2) =
           fst (MapDataCollector_populate_data m net)"
    and "fst (snd (MapDataCollector_populate_data
                (fst (snd (MapDataCollector_populate_data m net))) net2)) =
           fst (snd (MapDataCollector_populate_data m net))"
proof -
  define r where "r = response_json (respond net (map_request m))"
  define m' where "m' = snd (populate_map_fields r m)"
  have first: "MapDataCollector_populate_data m net =
      (fst (populate_map_fields r m), m', net\<lparr>sent := sent net @ [map_request m]\<rparr>)"
    by (simp add: MapDataCollector_populate_data_def requests_get_json_def r_def m'_def
        split: prod.splits)
  have req: "map_request m' = map_request m"
    unfolding m'_def by (rule populate_map_fields_request)
  have again: "populate_map_fields r m' = populate_map_fields r m"
    unfolding m'_def by (rule populate_map_fields_idem)
  have resp: "response_json (respond net2 (map_request m)) = r"
    using assms by (simp add: r_def)
  have second: "MapDataCollector_populate_data m' net2 =
      (fst (populate_map_fields r m), m', net2\<lparr>sent := sent net2 @ [map_request m]\<rparr>)"
    by (simp add: MapDataCollector_populate_data_def requests_get_json_def req resp again
        case_prod_beta m'_def [symmetric])
  show "fst (MapDataCollector_populate_data
                (fst (snd (MapDataCollector_populate_data m net))) net2) =
           fst (MapDataCollector_populate_data m net)"
    and "fst (snd (MapDataCollector_populate_data
                (fst (snd (MapDataCollector_populate_data m net))) net2)) =
           fst (snd (MapDataCollector_populate_data m net))"
    by (simp_all add: first second)
qed

lemma player_populate_distinct:
  "fst (PlayerStatsCollector_populate_data rt p net) = None \<Longrightarrow>
   distinct (map fst (all_legends_kills (fst (snd (PlayerStatsCollector_populate_data rt p net)))))"
  by (auto simp: PlayerStatsCollector_populate_data_def requests_get_json_def
      split: prod.splits intro: populate_player_fields_distinct)

lemma collect_twice:
  assumes "respond net2 = respond net"
  shows "fst (ApexCollector_collect rt (fst (snd (ApexCollector_collect rt self net))) net2) =
           fst (ApexCollector_collect rt self net)
         \<and> fst (snd (ApexCollector_collect rt (fst (snd (ApexCollector_collect rt self net))) net2)) =
           fst (snd (ApexCollector_collect rt self net))"
proof -
  define p0 where "p0 = player_stats_collector self"
  define m0 where "m0 = map_stats_collector self"
  define p1 where "p1 = fst (snd (PlayerStatsCollector_populate_data rt p0 net))"
  define m1 where "m1 = fst (snd (MapDataCollector_populate_data m0 net))"
  have pe: "fst (PlayerStatsCollector_populate_data rt p1 net2) =
            fst (PlayerStatsCollector_populate_data rt p0 net)"
    and ps: "fst (snd (PlayerStatsCollector_populate_data rt p1 net2)) = p1"
    unfolding p1_def using assms by (simp_all add: player_populate_idem)
  have me: "fst (MapDataCollector_populate_data m1 net2) = fst (MapDataCollector_populate_data m0 net)"
    and ms: "fst (snd (MapDataCollector_populate_data m1 net2)) = m1"
    unfolding m1_def using assms by (simp_all add: map_populate_idem)
  show ?thesis
  proof (cases "fst (PlayerStatsCollector_populate_data rt p0 net)")
    case (Some e)
    then have first: "ApexCollector_collect rt self net =
        (Some e, self\<lparr>player_stats_collector := p1\<rparr>,
         net\<lparr>sent := sent net @ [player_request p0]\<rparr>)"
      using collect_player_failed [of rt self net e] by (simp add: p0_def p1_def)
    have "fst (PlayerStatsCollector_populate_data rt
                 (player_stats_collector (self\<lparr>player_stats_collector := p1\<rparr>)) net2) = Some e"
      using pe Some by simp
    from collect_player_failed [OF this] show ?thesis
      by (simp add: first ps)
  next
    case None
    show ?thesis
    proof (cases "fst (MapDataCollector_populate_data m0 net)")
      case (Some e)
      then have first: "ApexCollector_collect rt self net =
          (Some e, self\<lparr>player_stats_collector := p1, map_stats_collector := m1\<rparr>,
           net\<lparr>sent := sent net @ [player_request p0, map_request m0]\<rparr>)"
        using collect_map_failed [of rt self net e] None by (simp add: p0_def p1_def m0_def m1_def)
      define self1 where "self1 = self\<lparr>player_stats_collector := p1, map_stats_collector := m1\<rparr>"
      have "fst (PlayerStatsCollector_populate_data rt (player_stats_collector self1) net2) = None"
        and "fst (MapDataCollector_populate_data (map_stats_collector self1) net2) = Some e"
        using pe me None Some by (simp_all add: self1_def)
      from collect_map_failed [OF this] show ?thesis
        by (simp add: first ps ms self1_def)
    next
      case None': None
      define base where "base = self\<lparr>player_stats_collector := p1, map_stats_collector := m1\<rparr>"
      define self1 where "self1 = snd (project rt p1 m1 base)"
      have first: "ApexCollector_collect rt self net =
          (fst (project rt p1 m1 base), self1,
           net\<lparr>sent := sent net @ [player_request p0, map_request m0]\<rparr>)"
        using collect_projects [of rt self net] None None'
        by (simp add: p0_def p1_def m0_def m1_def base_def self1_def)
      have parts: "player_stats_collector self1 = p1" "map_stats_collector self1 = m1"
        by (simp_all add: self1_def project_collectors base_def)
      then have same: "self1\<lparr>player_stats_collector := p1, map_stats_collector := m1\<rparr> = self1"
        by simp
      have "distinct (map fst (all_legends_kills p1))"
        unfolding p1_def using None by (rule player_populate_distinct)
      then have again: "project rt p1 m1 self1 = project rt p1 m1 base"
        unfolding self1_def by (rule project_idem)
      have "fst (PlayerStatsCollector_populate_data rt (player_stats_collector self1) net2) = None"
        and "fst (MapDataCollector_populate_data (map_stats_collector self1) net2) = None"
        using pe me None None' by (simp_all add: parts)
      from collect_projects [OF this] show ?thesis
        by (simp add: first parts ps ms same again self1_def [symmetric])
    qed
  qed
qed

text \<open>
  Claim C8. When the upstream answers a second call of \<open>collect\<close> as it answered the first
  (the same outcome for every request), the second call ends as the first did and leaves
  the collector, and with it every instrument, exactly as the first call left it.
\<close>

theorem collect_idempotent:
  assumes "ApexCollector_collect rt self net = (e, self1, net1)"
    and "respond net2 = respond net"
  shows "fst (ApexCollector_collect rt self1 net2) = e
         \<and> fst (snd (ApexCollector_collect rt self1 net2)) = self1
         \<and> instruments (fst (snd (ApexCollector_collect rt self1 net2))) = instruments self1"
  using collect_twice [OF assms(2), of rt self] assms(1) by simp

theorem collect_idempotent_witness:
  "fst (ApexCollector_collect example_runtime example_collector example_upstream) = None
   \<and> fst (ApexCollector_collect example_runtime
            (fst (snd (ApexCollector_collect example_runtime example_collector example_upstream)))
            example_upstream) = None
   \<and> instruments (fst (snd (ApexCollector_collect example_runtime
            (fst (snd (ApexCollector_collect example_runtime example_collector example_upstream)))
            example_upstream))) =
       instruments (fst (snd (ApexCollector_collect example_runtime example_collector
            example_upstream)))"
proof -
  have "ApexCollector_collect example_runtime example_collector example_upstream =
          (None,
           fst (snd (ApexCollector_collect example_runtime example_collector example_upstream)),
           snd (snd (ApexCollector_collect example_runtime example_collector example_upstream)))"
    using example_collect(1) by (simp add: prod_eq_iff)
  from collect_idempotent [OF this refl] example_collect(1) show ?thesis by simp
qed


section \<open>How a fetch fails\<close>


lemma player_populate_json:
  assumes "response_json (respond net2 (player_request p2)) =
           response_json (respond net (player_request p))"
  shows "fst (PlayerStatsCollector_populate_data rt p2 net2) =
         fst (PlayerStatsCollector_populate_data rt p net)"
  using assms populate_player_fields_error [of rt _ p2 p]
  by (simp add: PlayerStatsCollector_populate_data_def requests_get_json_def case_prod_beta)



lemma player_populate_error:
  "fst (PlayerStatsCollector_populate_data rt p net) =
     fst (populate_player_fields rt (response_json (respond net (player_request p))) p)"
  by (simp add: PlayerStatsCollector_populate_data_def requests_get_json_def case_prod_beta)












lemma upstream_respond:
  "respond (upstream player_outcome map_outcome) (player_request p) = player_outcome"
  "respond (upstream player_outcome map_outcome) (map_request m) = map_outcome"
  by (simp_all add: upstream_def player_request_def map_request_def PlayerStatsCollector_URL_def
      MapDataCollector_URL_def)



section \<open>The configuration\<close>

text \<open>
  Claim C5, as the code has it. \<open>PlayerStatsCollector.populate_data\<close> checks nothing about
  the configuration: whether it raises is decided by the upstream's answer to its request
  alone, whichever of \<open>uid\<close> and \<open>player_name\<close> are set. That exactly one of the two is set
  is checked when the program starts: with neither \<open>USER_ID\<close> nor \<open>PLAYER_NAME\<close> set, and
  with both set, the program exits with status 1.
\<close>

theorem configuration_checked_at_startup:
  "(\<not> environ_set environ ''USER_ID'' \<and> \<not> environ_set environ ''PLAYER_NAME'' \<longrightarrow>
      main_checks environ = Some 1)
   \<and> (environ_set environ ''USER_ID'' \<and> environ_set environ ''PLAYER_NAME'' \<longrightarrow>
      main_checks environ = Some 1)
   \<and> (response_json (respond net' (player_request p')) =
          response_json (respond net (player_request p)) \<longrightarrow>
      fst (PlayerStatsCollector_populate_data rt p' net') =
        fst (PlayerStatsCollector_populate_data rt p net))"
  using player_populate_json [of net' p' net p rt] by (simp add: main_checks_def)

text \<open>
  With both a uid and a name configured, and with neither, the fetch returns normally
  when the upstream answers with a document of the expected shape.
\<close>

theorem configuration_counterexample:
  "fst (PlayerStatsCollector_populate_data example_runtime
          (example_player\<lparr>uid := Some ''1007820930396''\<rparr>) example_upstream) = None
   \<and> fst (PlayerStatsCollector_populate_data example_runtime
            (example_player\<lparr>uid := None, player_name := None\<rparr>) example_upstream) = None"
proof -
  have "fst (PlayerStatsCollector_populate_data example_runtime p example_upstream) =
        fst (PlayerStatsCollector_populate_data example_runtime example_player example_upstream)"
    for p
    by (rule player_populate_json) (simp add: upstream_respond example_upstream_def)
  then show ?thesis
    by (simp add: example_upstream_def example_player_fetch)
qed

theorem configuration_checked_at_startup_witness:
  "main_checks ((\<lambda>name. None)(''API_KEY'' \<mapsto> ''secret'')) = Some 1
   \<and> main_checks ((\<lambda>name. None)(''API_KEY'' \<mapsto> ''secret'', ''USER_ID'' \<mapsto> ''1007820930396'',
                     ''PLAYER_NAME'' \<mapsto> ''Heartbreaker'')) = Some 1
   \<and> fst (PlayerStatsCollector_populate_data example_runtime
            (example_player\<lparr>uid := Some ''1007820930396''\<rparr>) example_upstream) =
       fst (PlayerStatsCollector_populate_data example_runtime example_player example_upstream)"
proof -
  let ?neither = "(\<lambda>name. None)(''API_KEY'' \<mapsto> ''secret'') :: string \<Rightarrow> string option"
  let ?both = "(\<lambda>name. None)(''API_KEY'' \<mapsto> ''secret'', ''USER_ID'' \<mapsto> ''1007820930396'',
                 ''PLAYER_NAME'' \<mapsto> ''Heartbreaker'') :: string \<Rightarrow> string option"
  let ?p = "example_player\<lparr>uid := Some ''1007820930396''\<rparr>"
  have unset: "\<not> environ_set ?neither ''USER_ID'' \<and> \<not> environ_set ?neither ''PLAYER_NAME''"
    by (simp add: environ_set_def)
  have set: "environ_set ?both ''USER_ID'' \<and> environ_set ?both ''PLAYER_NAME''"
    by (simp add: environ_set_def)
  have answer: "response_json (respond example_upstream (player_request ?p)) =
                response_json (respond example_upstream (player_request example_player))"
    by (simp add: example_upstream_def upstream_respond)
  have "main_checks ?neither = Some 1"
    using configuration_checked_at_startup [where environ = ?neither and net = example_upstream
        and net' = example_upstream and p = example_player and p' = ?p and rt = example_runtime]
      unset by blast
  moreover have "main_checks ?both = Some 1"
    using configuration_checked_at_startup [where environ = ?both and net = example_upstream
        and net' = example_upstream and p = example_player and p' = ?p and rt = example_runtime]
      set by blast
  moreover have "fst (PlayerStatsCollector_populate_data example_runtime ?p example_upstream) =
       fst (PlayerStatsCollector_populate_data example_runtime example_player example_upstream)"
    using configuration_checked_at_startup [where environ = ?both and net = example_upstream
        and net' = example_upstream and p = example_player and p' = ?p and rt = example_runtime]
      answer by blast
  ultimately show ?thesis by blast
qed


section \<open>The fields of a successful player-statistics fetch\<close>

lemma player_populate_success:
  assumes "PlayerStatsCollector_populate_data rt self net = (None, self', net')"
  shows "populate_player_fields rt (response_json (respond net (player_request self))) self =
           (None, self')"
  using assms
  by (simp add: PlayerStatsCollector_populate_data_def requests_get_json_def case_prod_beta
      prod_eq_iff)

text \<open>
  Claim C6. After a fetch that returns normally, the kill count of the active legend is
  the member \<open>value\<close> of the first entry of \<open>legends.selected.data\<close>, whatever the key of
  that entry.
\<close>

theorem active_legend_kills_positional:
  assumes "PlayerStatsCollector_populate_data rt self net = (None, self', net')"
    and "respond net (player_request self) = Response status (Some player_stats)"
  shows "\<exists>data entry.
           getpath player_stats [''legends'', ''selected'', ''data''] = Inr data
           \<and> getitem_index data 0 = Inr entry
           \<and> getitem entry ''value'' = Inr (current_legend_br_kills self')"
  using player_populate_success [OF assms(1)] assms(2)
  unfolding populate_player_fields_def
  by (auto simp: completes simp del: block.simps)

theorem active_legend_kills_positional_witness:
  "getpath example_player_stats [''legends'', ''selected'', ''data''] =
     Inr (PList [PDict [(''key'', PStr ''wins''), (''value'', PInt 7)],
                 PDict [(''key'', PStr ''kills''), (''value'', PInt 12)]])
   \<and> current_legend_br_kills
         (fst (snd (PlayerStatsCollector_populate_data example_runtime example_player
                      example_upstream))) = PInt 7"
proof -
  let ?run = "PlayerStatsCollector_populate_data example_runtime example_player example_upstream"
  have "fst ?run = None"
    by (simp add: example_upstream_def example_player_fetch)
  then have run: "?run = (None, fst (snd ?run), snd (snd ?run))"
    by (simp add: prod_eq_iff)
  have answer: "respond example_upstream (player_request example_player) =
                  Response 200 (Some example_player_stats)"
    by (simp add: example_upstream_def upstream_respond)
  have data: "getpath example_player_stats [''legends'', ''selected'', ''data''] =
     Inr (PList [PDict [(''key'', PStr ''wins''), (''value'', PInt 7)],
                 PDict [(''key'', PStr ''kills''), (''value'', PInt 12)]])"
    by (simp add: example_player_stats_def player_stats_document_def)
  from active_legend_kills_positional [OF run answer] data show ?thesis
    by auto
qed

text \<open>
  Claim C10. After a fetch that returns normally, the battle-pass level and history are
  the upstream values \<open>global.battlepass.level\<close> and \<open>global.battlepass.history\<close> when
  these are true in Python's sense, and the integer 0 otherwise; \<open>null\<close>, \<open>false\<close>, \<open>0\<close> and
  the empty string are all false.
\<close>

theorem battle_pass_or_zero:
  assumes "PlayerStatsCollector_populate_data rt self net = (None, self', net')"
    and "respond net (player_request self) = Response status (Some player_stats)"
  shows "(\<exists>level_value history_value.
            getpath player_stats [''global'', ''battlepass'', ''level''] = Inr level_value
            \<and> getpath player_stats [''global'', ''battlepass'', ''history''] = Inr history_value
            \<and> battle_pass_level self' =
                (if py_bool rt level_value then level_value else PInt 0)
            \<and> battle_pass_history self' =
                (if py_bool rt history_value then history_value else PInt 0))
         \<and> \<not> py_bool rt PNone \<and> \<not> py_bool rt (PBool False) \<and> \<not> py_bool rt (PInt 0)
         \<and> \<not> py_bool rt (PStr [])"
proof -
  have "\<exists>level_value history_value.
            getpath player_stats [''global'', ''battlepass'', ''level''] = Inr level_value
            \<and> getpath player_stats [''global'', ''battlepass'', ''history''] = Inr history_value
            \<and> battle_pass_level self' = py_or rt level_value (PInt 0)
            \<and> battle_pass_history self' = py_or rt history_value (PInt 0)"
    using player_populate_success [OF assms(1)] assms(2)
    unfolding populate_player_fields_def
    by (auto simp: completes simp del: block.simps)
  then show ?thesis
    by (simp add: py_or_def)
qed

theorem battle_pass_or_zero_witness:
  "getpath example_player_stats [''global'', ''battlepass'', ''level''] = Inr (PInt 17)
   \<and> getpath example_player_stats [''global'', ''battlepass'', ''history''] = Inr (PBool False)
   \<and> battle_pass_level
         (fst (snd (PlayerStatsCollector_populate_data example_runtime example_player
                      example_upstream))) = PInt 17
   \<and> battle_pass_history
         (fst (snd (PlayerStatsCollector_populate_data example_runtime example_player
                      example_upstream))) = PInt 0"
proof -
  let ?run = "PlayerStatsCollector_populate_data example_runtime example_player example_upstream"
  have "fst ?run = None"
    by (simp add: example_upstream_def example_player_fetch)
  then have run: "?run = (None, fst (snd ?run), snd (snd ?run))"
    by (simp add: prod_eq_iff)
  have answer: "respond example_upstream (player_request example_player) =
                  Response 200 (Some example_player_stats)"
    by (simp add: example_upstream_def upstream_respond)
  have members: "getpath example_player_stats [''global'', ''battlepass'', ''level''] = Inr (PInt 17)"
    "getpath example_player_stats [''global'', ''battlepass'', ''history''] = Inr (PBool False)"
    by (simp_all add: example_player_stats_def player_stats_document_def)
  from battle_pass_or_zero [OF run answer] members show ?thesis
    by auto
qed

section \<open>The per-legend kill mapping\<close>

lemma update_fresh: "k \<notin> fst ` set al \<Longrightarrow> AList.update k v al = al @ [(k, v)]"
  by (induction al) auto

lemma first_kills_spec:
  "first_kills entries = Inr kill_value \<Longrightarrow>
   kill_value =
     (case find (\<lambda>entry. getitem entry ''key'' = Inr (PStr ''kills'')) entries of
        Some entry \<Rightarrow> (case getitem entry ''value'' of Inr v \<Rightarrow> v | Inl e \<Rightarrow> PInt 0)
      | None \<Rightarrow> PInt 0)"
proof (induction entries)
  case Nil
  then show ?case by simp
next
  case (Cons entry entries)
  show ?case
  proof (cases "getitem entry ''key''")
    case (Inl e)
    with Cons.prems show ?thesis by simp
  next
    case (Inr k)
    show ?thesis
    proof (cases "k = PStr ''kills''")
      case True
      with Cons.prems Inr show ?thesis by (simp add: py_eq_str_def)
    next
      case False
      with Cons.prems Inr have "first_kills entries = Inr kill_value"
        by (simp add: py_eq_str_def)
      from Cons.IH [OF this] Inr False show ?thesis by simp
    qed
  qed
qed

lemma first_kills_strings:
  "first_kills (map (\<lambda>x. PStr (f x)) xs) = Inr kill_value \<Longrightarrow> xs = [] \<and> kill_value = PInt 0"
  by (cases xs) auto

lemma kill_value_of_spec:
  assumes "kill_value_of legend_info = Inr kill_value"
  shows "kill_value = spec_kill_count legend_info" and "spec_has_detail_list legend_info"
proof -
  obtain data items where data: "getitem legend_info ''data'' = Inr data"
    and items: "py_iter data = Inr items" and first: "first_kills items = Inr kill_value"
    using assms by (auto simp: kill_value_of_def bind_value_Inr)
  show "spec_has_detail_list legend_info"
    by (simp add: spec_has_detail_list_def data)
  show "kill_value = spec_kill_count legend_info"
  proof (cases data)
    case (PList entries)
    with items first first_kills_spec [of entries kill_value] show ?thesis
      by (simp add: spec_kill_count_def data)
  next
    case (PStr s)
    with items first first_kills_strings [of "\<lambda>c. [c]" s kill_value] show ?thesis
      by (auto simp: spec_kill_count_def data)
  next
    case (PDict kvs)
    with items first first_kills_strings [of fst kvs kill_value] show ?thesis
      by (auto simp: spec_kill_count_def data)
  qed (use items in simp_all)
qed

lemma no_data_no_detail:
  "py_contains legend_info ''data'' = Inr False \<Longrightarrow> \<not> spec_has_detail_list legend_info"
  by (cases legend_info)
     (auto simp: spec_has_detail_list_def map_of_eq_None_iff [THEN iffD2] image_iff
        split: option.splits)

lemma legends_loop_spec:
  assumes "legends_loop rt items acc = (None, d)"
    and "distinct (map fst items)"
    and "fst ` set items \<inter> fst ` set acc = {}"
  shows "d = acc @ spec_legend_kills rt items"
  using assms
proof (induction items arbitrary: acc)
  case Nil
  then show ?case by (simp add: spec_legend_kills_def)
next
  case (Cons item items)
  obtain legend_name legend_info where item: "item = (legend_name, legend_info)"
    by (cases item)
  have dist: "distinct (map fst items)" and fresh: "legend_name \<notin> fst ` set items"
    and new: "legend_name \<notin> fst ` set acc"
    and apart: "fst ` set items \<inter> fst ` set acc = {}"
    using Cons.prems(2,3) item by auto
  have skip: "spec_legend_kills rt (item # items) = spec_legend_kills rt items"
    if "legend_name = ''Global'' \<or> \<not> spec_has_detail_list legend_info
        \<or> \<not> py_ne_zero rt (spec_kill_count legend_info)"
    using that by (auto simp: spec_legend_kills_def item)
  have keep: "spec_legend_kills rt (item # items) =
      (legend_name, spec_kill_count legend_info) # spec_legend_kills rt items"
    if "legend_name \<noteq> ''Global''" "spec_has_detail_list legend_info"
      "py_ne_zero rt (spec_kill_count legend_info)"
    using that by (simp add: spec_legend_kills_def item)
  show ?case
  proof (cases "legend_name = ''Global''")
    case True
    with Cons.prems(1) have "legends_loop rt items acc = (None, d)"
      by (simp add: item)
    from Cons.IH [OF this dist apart] True show ?thesis by (simp add: skip)
  next
    case False
    show ?thesis
    proof (cases "py_contains legend_info ''data''")
      case (Inl e)
      with Cons.prems(1) False show ?thesis by (simp add: item)
    next
      case (Inr present)
      show ?thesis
      proof (cases present)
        case False': False
        with Cons.prems(1) False Inr have "legends_loop rt items acc = (None, d)"
          by (simp add: item)
        from Cons.IH [OF this dist apart] no_data_no_detail [of legend_info] Inr False'
        show ?thesis by (simp add: skip)
      next
        case True
        show ?thesis
        proof (cases "kill_value_of legend_info")
          case (Inl e)
          with Cons.prems(1) False Inr True show ?thesis by (simp add: item)
        next
          case kv: (Inr kill_value)
          note spec = kill_value_of_spec [OF kv]
          show ?thesis
          proof (cases "py_ne_zero rt kill_value")
            case nonzero: True
            with Cons.prems(1) False Inr True kv
            have rest: "legends_loop rt items (acc @ [(legend_name, kill_value)]) = (None, d)"
              by (simp add: item update_fresh [OF new])
            have apart': "fst ` set items \<inter> fst ` set (acc @ [(legend_name, kill_value)]) = {}"
              using apart fresh by auto
            have "d = (acc @ [(legend_name, kill_value)]) @ spec_legend_kills rt items"
              by (rule Cons.IH [OF rest dist apart'])
            with False spec nonzero show ?thesis by (simp add: keep)
          next
            case zero: False
            with Cons.prems(1) False Inr True kv have "legends_loop rt items acc = (None, d)"
              by (simp add: item)
            from Cons.IH [OF this dist apart] spec zero show ?thesis by (simp add: skip)
          qed
        qed
      qed
    qed
  qed
qed

lemma not_isl_iff: "\<not> isl r \<longleftrightarrow> (\<exists>v. r = Inr v)"
  by (cases r) auto

lemma not_isl_bind: "\<not> isl (bind_value r f) \<longleftrightarrow> (\<exists>v. r = Inr v \<and> \<not> isl (f v))"
  by (cases r) auto

lemma first_kills_returns:
  "list_all detail_entry_shaped entries \<Longrightarrow> \<exists>v. first_kills entries = Inr v"
proof (induction entries)
  case Nil
  show ?case by simp
next
  case (Cons entry entries)
  obtain k v where "getitem entry ''key'' = Inr k" and "getitem entry ''value'' = Inr v"
    using Cons.prems by (auto simp: detail_entry_shaped_def not_isl_iff)
  moreover obtain w where "first_kills entries = Inr w"
    using Cons by auto
  ultimately show ?case by simp
qed

lemma kill_value_of_returns:
  assumes "legend_shaped legend_info" and "py_contains legend_info ''data'' = Inr True"
  shows "\<exists>v. kill_value_of legend_info = Inr v"
proof -
  obtain members where info: "legend_info = PDict members"
    using assms(1) by (cases legend_info) (simp_all add: legend_shaped_def)
  have "''data'' \<in> fst ` set members"
    using assms(2) info by simp
  then obtain data where data: "map_of members ''data'' = Some data"
    using map_of_eq_None_iff [of members "''data''"] by (cases "map_of members ''data''") auto
  obtain entries where entries: "data = PList entries" and shaped: "list_all detail_entry_shaped entries"
    using assms(1) info data by (cases data) (simp_all add: legend_shaped_def)
  from first_kills_returns [OF shaped] show ?thesis
    by (simp add: kill_value_of_def info data entries)
qed

lemma legends_loop_returns:
  assumes "list_all (\<lambda>legend. fst legend = ''Global'' \<or> legend_shaped (snd legend)) items"
  shows "fst (legends_loop rt items acc) = None"
  using assms
proof (induction items arbitrary: acc)
  case Nil
  show ?case by simp
next
  case (Cons item items)
  obtain legend_name legend_info where item: "item = (legend_name, legend_info)"
    by (cases item)
  have rest: "fst (legends_loop rt items acc') = None" for acc'
    using Cons by simp
  show ?case
  proof (cases "legend_name = ''Global''")
    case True
    then show ?thesis by (simp add: item rest)
  next
    case False
    then have shaped: "legend_shaped legend_info"
      using Cons.prems item by simp
    then obtain members where info: "legend_info = PDict members"
      by (cases legend_info) (simp_all add: legend_shaped_def)
    show ?thesis
    proof (cases "''data'' \<in> fst ` set members")
      case absent: False
      with False show ?thesis by (simp add: item info rest)
    next
      case True
      then have "py_contains legend_info ''data'' = Inr True"
        by (simp add: info)
      from kill_value_of_returns [OF shaped this] obtain v where "kill_value_of legend_info = Inr v"
        by blast
      with False True show ?thesis
        by (simp add: item info rest)
    qed
  qed
qed

lemma player_fields_return:
  assumes "player_stats_shaped rt player_stats"
    and "getpath player_stats [''legends'', ''all''] = Inr (PDict all_legends)"
    and "legends_shaped all_legends"
  shows "fst (populate_player_fields rt (Inr player_stats) s) = None"
proof -
  have "fst (legends_loop rt all_legends []) = None"
    using assms(3) by (simp add: legends_shaped_def legends_loop_returns)
  then obtain d where loop: "legends_loop rt all_legends [] = (None, d)"
    by (cases "legends_loop rt all_legends []") auto
  show ?thesis
    using assms(1,2)
    unfolding player_stats_shaped_def populate_player_fields_def
    by (clarsimp simp: not_isl_bind not_isl_iff bind_value_Inr local_var_def assign_def
        for_legends_def loop map_value_def)
qed

lemma player_populate_returns:
  assumes "respond net (player_request self) = Response status (Some player_stats)"
    and "player_stats_shaped rt player_stats"
    and "getpath player_stats [''legends'', ''all''] = Inr (PDict all_legends)"
    and "legends_shaped all_legends"
  shows "fst (PlayerStatsCollector_populate_data rt self net) = None"
  using player_fields_return [OF assms(2-4)] assms(1)
  by (simp add: player_populate_error)

lemma legend_kills_of_success:
  assumes "PlayerStatsCollector_populate_data rt self net = (None, self', net')"
    and "respond net (player_request self) = Response status (Some player_stats)"
    and "getpath player_stats [''legends'', ''all''] = Inr (PDict all_legends)"
    and "distinct (map fst all_legends)"
  shows "all_legends_kills self' = spec_legend_kills rt all_legends"
proof -
  have "\<exists>d. legends_loop rt all_legends [] = (None, d) \<and> all_legends_kills self' = d"
    using player_populate_success [OF assms(1)] assms(2,3)
    unfolding populate_player_fields_def
    by (auto simp: completes simp del: block.simps)
  then obtain d where "legends_loop rt all_legends [] = (None, d)" and "all_legends_kills self' = d"
    by blast
  with legends_loop_spec [of rt all_legends "[]" d] assms(4) show ?thesis
    by simp
qed

text \<open>
  Claim C1. For every player-statistics document of the documented shape, whose
  "all legends" collection is an object of legends of the documented shape, the fetch
  returns normally and the per-legend kill mapping is the mapping the specification
  describes: the legends other than \<open>Global\<close> that have a detail list and whose
  key-matched kill value is not equal to 0, each with that value, in the order of the
  collection; a legend whose detail list has no entry with the key \<open>kills\<close> counts zero
  kills and is left out. And whenever a fetch returns normally, whatever the shape of the
  rest, the mapping is the one the specification describes.
\<close>

theorem legend_kills_mapping:
  "(respond net (player_request self) = Response status (Some player_stats)
      \<and> player_stats_shaped rt player_stats
      \<and> getpath player_stats [''legends'', ''all''] = Inr (PDict all_legends)
      \<and> legends_shaped all_legends \<longrightarrow>
    fst (PlayerStatsCollector_populate_data rt self net) = None
    \<and> all_legends_kills (fst (snd (PlayerStatsCollector_populate_data rt self net))) =
        spec_legend_kills rt all_legends)
   \<and> (PlayerStatsCollector_populate_data rt self net = (None, self', net')
      \<and> respond net (player_request self) = Response status (Some player_stats)
      \<and> getpath player_stats [''legends'', ''all''] = Inr (PDict all_legends)
      \<and> distinct (map fst all_legends) \<longrightarrow>
    all_legends_kills self' = spec_legend_kills rt all_legends)"
proof (intro conjI impI)
  assume shaped: "respond net (player_request self) = Response status (Some player_stats)
      \<and> player_stats_shaped rt player_stats
      \<and> getpath player_stats [''legends'', ''all''] = Inr (PDict all_legends)
      \<and> legends_shaped all_legends"
  let ?run = "PlayerStatsCollector_populate_data rt self net"
  from shaped show returns: "fst ?run = None"
    by (blast intro: player_populate_returns)
  then have "?run = (None, fst (snd ?run), snd (snd ?run))"
    by (simp add: prod_eq_iff)
  moreover have "distinct (map fst all_legends)"
    using shaped by (simp add: legends_shaped_def)
  ultimately show "all_legends_kills (fst (snd ?run)) = spec_legend_kills rt all_legends"
    using shaped by (blast intro: legend_kills_of_success)
next
  assume "PlayerStatsCollector_populate_data rt self net = (None, self', net')
      \<and> respond net (player_request self) = Response status (Some player_stats)
      \<and> getpath player_stats [''legends'', ''all''] = Inr (PDict all_legends)
      \<and> distinct (map fst all_legends)"
  then show "all_legends_kills self' = spec_legend_kills rt all_legends"
    by (blast intro: legend_kills_of_success)
qed


lemma example_document_shaped:
  "player_stats_shaped example_runtime (player_stats_document all_legends)"
  by (simp add: player_stats_shaped_def player_stats_document_def example_runtime_def)

text \<open>
  The collection of the specification's example gives exactly \<open>{"Wraith": 12}\<close>; the
  larger collection gives \<open>{"Wraith": 12, "Mirage": 5}\<close>: \<open>Pathfinder\<close>, whose detail list
  has no entry for \<open>kills\<close>, and \<open>Lifeline\<close>, whose detail list is empty, count zero.
\<close>

theorem legend_kills_mapping_witness:
  "fst (PlayerStatsCollector_populate_data example_runtime example_player example_upstream) = None
   \<and> all_legends_kills
         (fst (snd (PlayerStatsCollector_populate_data example_runtime example_player
                      example_upstream))) = [(''Wraith'', PInt 12)]
   \<and> fst (PlayerStatsCollector_populate_data example_runtime example_player
            (upstream (Response 200 (Some (player_stats_document example_more_legends)))
               ConnectionFailed)) = None
   \<and> all_legends_kills
         (fst (snd (PlayerStatsCollector_populate_data example_runtime example_player
                      (upstream (Response 200 (Some (player_stats_document example_more_legends)))
                         ConnectionFailed)))) = [(''Wraith'', PInt 12), (''Mirage'', PInt 5)]"
proof -
  let ?run = "PlayerStatsCollector_populate_data example_runtime example_player example_upstream"
  let ?all = "[(''Global'', PDict [(''data'', PList [PDict [(''key'', PStr ''kills''), (''value'', PInt 99)]])]),
       (''Wraith'', PDict [(''data'', PList [PDict [(''key'', PStr ''kills''), (''value'', PInt 12)]])]),
       (''Bangalore'', PDict [(''data'', PList [PDict [(''key'', PStr ''kills''), (''value'', PInt 0)]])]),
       (''Octane'', PDict [])] :: (string \<times> rat pyval) list"
  let ?more_upstream = "upstream (Response 200 (Some (player_stats_document example_more_legends)))
                          ConnectionFailed"
  let ?more_run = "PlayerStatsCollector_populate_data example_runtime example_player ?more_upstream"
  let ?more = "?all @
      [(''Pathfinder'', PDict [(''data'', PList [PDict [(''key'', PStr ''wins''), (''value'', PInt 3)]])]),
       (''Lifeline'', PDict [(''data'', PList [])]),
       (''Mirage'', PDict [(''data'', PList [PDict [(''key'', PStr ''wins''), (''value'', PInt 1)],
                                            PDict [(''key'', PStr ''kills''), (''value'', PInt 5)]])])]"
  have answer: "respond example_upstream (player_request example_player) =
                  Response 200 (Some example_player_stats)"
    by (simp add: example_upstream_def upstream_respond)
  have shaped: "player_stats_shaped example_runtime example_player_stats"
    by (simp add: example_player_stats_def example_document_shaped)
  have collection: "getpath example_player_stats [''legends'', ''all''] = Inr (PDict ?all)"
    by (simp add: example_player_stats_def player_stats_document_def example_all_legends_def)
  have legends: "legends_shaped ?all"
    by (simp add: legends_shaped_def legend_shaped_def detail_entry_shaped_def)
  have expected: "spec_legend_kills example_runtime ?all = [(''Wraith'', PInt 12)]"
    by (simp add: spec_legend_kills_def spec_has_detail_list_def spec_kill_count_def)
  have more_answer: "respond ?more_upstream (player_request example_player) =
                       Response 200 (Some (player_stats_document example_more_legends))"
    by (simp add: upstream_respond)
  have more_collection:
    "getpath (player_stats_document example_more_legends) [''legends'', ''all''] = Inr (PDict ?more)"
    by (simp add: player_stats_document_def example_more_legends_def)
  have more_legends: "legends_shaped ?more"
    by (simp add: legends_shaped_def legend_shaped_def detail_entry_shaped_def)
  have more_expected:
    "spec_legend_kills example_runtime ?more = [(''Wraith'', PInt 12), (''Mirage'', PInt 5)]"
    by (simp add: spec_legend_kills_def spec_has_detail_list_def spec_kill_count_def)
  have "fst ?run = None \<and> all_legends_kills (fst (snd ?run)) = spec_legend_kills example_runtime ?all"
    using legend_kills_mapping [where net = example_upstream and self = example_player
        and status = 200 and player_stats = example_player_stats and rt = example_runtime
        and all_legends = ?all and self' = "fst (snd ?run)" and net' = "snd (snd ?run)"]
      answer shaped collection legends
    by blast
  moreover have "fst ?more_run = None
      \<and> all_legends_kills (fst (snd ?more_run)) = spec_legend_kills example_runtime ?more"
    using legend_kills_mapping [where net = ?more_upstream and self = example_player
        and status = 200 and player_stats = "player_stats_document example_more_legends"
        and rt = example_runtime and all_legends = ?more and self' = "fst (snd ?more_run)"
        and net' = "snd (snd ?more_run)"]
      more_answer example_document_shaped more_collection more_legends
    by blast
  ultimately show ?thesis
    by (simp only: expected more_expected simp_thms)
qed

end
